theory Spec2Isabelle
  imports Main
begin

section \<open>Data model\<close>

text \<open>
  The user document of the platform (the Mongoose schema \<^verbatim>\<open>IUser\<close>): \<^verbatim>\<open>username\<close> and
  \<^verbatim>\<open>password\<close> are optional fields, \<^verbatim>\<open>role\<close> is one of \<^verbatim>\<open>'user'\<close> and \<^verbatim>\<open>'admin'\<close>.
  \<^verbatim>\<open>InsertUser\<close> is the object the controller hands to \<^verbatim>\<open>storage.createUser\<close>; a stored
  user adds the identifier and the profile fields the controller never sets. Identifiers
  are opaque; they are numbered here. Timestamps and the payment-provider fields are not
  part of the model.
\<close>

datatype role = RoleUser | RoleAdmin

record insertUser =
  username :: "string option"
  name :: string
  email :: string
  password :: "string option"
  role :: role
  favoriteArtists :: "string list"
  purchasedTickets :: "string list"

record user = insertUser +
  uid :: nat
  profilePicture :: "string option"
  bio :: "string option"

text \<open>The claims signed into a session token, and the payload of a Google ID token.\<close>

record claims =
  c_id :: nat
  c_name :: string
  c_email :: string

record gpayload =
  g_sub :: "string option"
  g_email :: "string option"
  g_name :: "string option"

text \<open>Request bodies and headers, as far as the handlers read them.\<close>

record registerBody =
  b_name :: "string option"
  b_email :: "string option"
  b_password :: "string option"
  b_username :: "string option"

record loginBody =
  l_email :: "string option"
  l_password :: "string option"

datatype resource = Videos | Events | Mixes | Gallery

record item =
  kind :: resource
  itemId :: nat
  itemData :: string

record adminReq =
  authorization :: "string option"
  paramId :: nat
  reqBody :: string

text \<open>
  A response: the status (200 when the handler calls \<^verbatim>\<open>res.json\<close> without
  \<^verbatim>\<open>res.status\<close>) and the JSON body.
\<close>

datatype resBody =
    ErrorJson string
  | MessageJson string
  | AuthJson string user
  | UserJson user
  | ItemJson item
  | NoBody

record response =
  status :: nat
  body :: resBody

definition json :: "nat \<Rightarrow> resBody \<Rightarrow> response" where
  "json st b = \<lparr>status = st, body = b\<rparr>"

section \<open>Exceptions, the world, and sequencing\<close>

datatype exn = StoreError | VerifyError | ParseError | JwtError

datatype storeMethod =
    GetUser nat
  | GetUserByEmail string
  | GetUserByUsername string
  | CreateUser string
  | CreateItem resource
  | UpdateItem resource nat
  | DeleteItem resource nat

text \<open>
  Everything outside the handlers that they read or change: the stored users and content
  items, the schedule of store failures (\<open>True\<close> at the head: the next store call
  raises), the trace of store methods invoked, what \<^verbatim>\<open>console.error\<close> printed, and the
  entropy behind \<^verbatim>\<open>Math.random\<close> and the salts.
\<close>

record world =
  users :: "user list"
  nextId :: nat
  items :: "item list"
  nextItemId :: nat
  faults :: "bool list"
  calls :: "storeMethod list"
  errlog :: "string list"
  entropy :: nat

type_synonym 'a prog = "world \<Rightarrow> (exn + 'a) \<times> world"

definition ret :: "'a \<Rightarrow> 'a prog" where
  "ret v = (\<lambda>s. (Inr v, s))"

definition throw :: "exn \<Rightarrow> 'a prog" where
  "throw e = (\<lambda>s. (Inl e, s))"

definition bnd :: "'a prog \<Rightarrow> ('a \<Rightarrow> 'b prog) \<Rightarrow> 'b prog" where
  "bnd m f = (\<lambda>s. case m s of (Inl e, s1) \<Rightarrow> (Inl e, s1) | (Inr v, s1) \<Rightarrow> f v s1)"

definition tryCatch :: "'a prog \<Rightarrow> (exn \<Rightarrow> 'a prog) \<Rightarrow> 'a prog" where
  "tryCatch m h = (\<lambda>s. case m s of (Inl e, s1) \<Rightarrow> h e s1 | (Inr v, s1) \<Rightarrow> (Inr v, s1))"

text \<open>The outermost \<^verbatim>\<open>try { ... } catch (error) { ... }\<close> of a handler: it always responds.\<close>

definition tryCatchAll :: "response prog \<Rightarrow> (exn \<Rightarrow> world \<Rightarrow> response \<times> world) \<Rightarrow> world \<Rightarrow> response \<times> world" where
  "tryCatchAll m h = (\<lambda>s. case m s of (Inl e, s1) \<Rightarrow> h e s1 | (Inr r, s1) \<Rightarrow> (r, s1))"

definition orThrow :: "exn \<Rightarrow> 'a option \<Rightarrow> 'a prog" where
  "orThrow e r = (case r of None \<Rightarrow> throw e | Some v \<Rightarrow> ret v)"

definition consoleError :: "string \<Rightarrow> unit prog" where
  "consoleError msg = (\<lambda>s. (Inr (), s\<lparr>errlog := errlog s @ [msg]\<rparr>))"

definition logged :: "string \<Rightarrow> world \<Rightarrow> world" where
  "logged msg s = s\<lparr>errlog := errlog s @ [msg]\<rparr>"

definition draw :: "nat prog" where
  "draw = (\<lambda>s. (Inr (entropy s), s\<lparr>entropy := Suc (entropy s)\<rparr>))"

text \<open>JavaScript truthiness of an optional string: \<^verbatim>\<open>undefined\<close> and \<^verbatim>\<open>''\<close> are falsy.\<close>

definition falsy :: "string option \<Rightarrow> bool" where
  "falsy x = (x = None \<or> x = Some [])"

text \<open>\<^verbatim>\<open>s.split(c)\<close> for a one-character separator: never empty, \<^verbatim>\<open>''.split(c)\<close> is \<^verbatim>\<open>['']\<close>.\<close>

fun splitOn :: "char \<Rightarrow> string \<Rightarrow> string list" where
  "splitOn c [] = [[]]"
| "splitOn c (x # xs) =
     (if x = c then [] # splitOn c xs
      else (case splitOn c xs of [] \<Rightarrow> [[x]] | p # ps \<Rightarrow> (x # p) # ps))"

definition startsWith :: "string \<Rightarrow> string \<Rightarrow> bool" where
  "startsWith pre s = (take (length pre) s = pre)"

section \<open>External libraries\<close>

text \<open>
  bcryptjs, jsonwebtoken, google-auth-library and the runtime's \<^verbatim>\<open>Buffer\<close>/\<^verbatim>\<open>JSON\<close> are
  parameters of the model. The signing secret is inside \<open>jwt_sign\<close> and \<open>jwt_verify\<close>;
  \<open>None\<close> is a raised exception. \<open>verifyIdToken cid t aud\<close> is
  \<^verbatim>\<open>client.verifyIdToken({idToken: t, audience: aud})\<close> on the client constructed with the
  identifier \<open>cid\<close>, followed by \<^verbatim>\<open>getPayload()\<close> (\<open>Some None\<close>: no payload).
  \<open>decodeJson m\<close> is \<^verbatim>\<open>JSON.parse(Buffer.from(m, 'base64').toString('utf8'))\<close>
  (\<open>Some None\<close>: a value with no fields, such as \<^verbatim>\<open>null\<close>).
\<close>

record libs =
  bcrypt_hash :: "string \<Rightarrow> nat \<Rightarrow> string"
  bcrypt_compare :: "string \<Rightarrow> string \<Rightarrow> bool"
  jwt_sign :: "claims \<Rightarrow> string"
  jwt_verify :: "string \<Rightarrow> claims option"
  verifyIdToken :: "string \<Rightarrow> string \<Rightarrow> string option \<Rightarrow> gpayload option option"
  decodeJson :: "string \<Rightarrow> gpayload option option"
  randomString :: "nat \<Rightarrow> string"

definition GOOGLE_CLIENT_ID :: string where
  "GOOGLE_CLIENT_ID = ''459807581006-5kb6rg9s1dj6klua4icma8raoi0la55c.apps.googleusercontent.com''"

section \<open>The store\<close>

text \<open>
  \<^verbatim>\<open>server/storage.ts\<close> is not among the sources; the handlers reach it through
  \<^verbatim>\<open>getUser\<close>, \<^verbatim>\<open>getUserByEmail\<close>, \<^verbatim>\<open>getUserByUsername\<close>, \<^verbatim>\<open>createUser\<close> and the content
  methods. The user schema that is among the sources declares \<^verbatim>\<open>email\<close> unique and
  \<^verbatim>\<open>username\<close> unique and sparse.
\<close>

text \<open>
  Modelled from the spec: the Credential Store is external and any call to it may raise
  (\<^verbatim>\<open>StoreFailure\<close>). A call takes the head of the failure schedule and is recorded in the
  trace.
\<close>

definition storeCall :: "storeMethod \<Rightarrow> unit prog" where
  "storeCall c = (\<lambda>s.
     (case faults s of
        [] \<Rightarrow> (Inr (), s\<lparr>calls := calls s @ [c]\<rparr>)
      | f # fs \<Rightarrow> ((if f then Inl StoreError else Inr ()), s\<lparr>faults := fs, calls := calls s @ [c]\<rparr>)))"

text \<open>Modelled from the spec: the Credential Store's lookup of a record by id.\<close>

definition getUser :: "nat \<Rightarrow> user option prog" where
  "getUser i = bnd (storeCall (GetUser i)) (\<lambda>_ s. (Inr (find (\<lambda>u. uid u = i) (users s)), s))"

text \<open>Modelled from the spec: the Credential Store's lookup by email, an exact match.\<close>

definition getUserByEmail :: "string \<Rightarrow> user option prog" where
  "getUserByEmail e = bnd (storeCall (GetUserByEmail e)) (\<lambda>_ s. (Inr (find (\<lambda>u. email u = e) (users s)), s))"

text \<open>Modelled from the spec: the Credential Store's lookup by username.\<close>

definition getUserByUsername :: "string \<Rightarrow> user option prog" where
  "getUserByUsername n = bnd (storeCall (GetUserByUsername n)) (\<lambda>_ s. (Inr (find (\<lambda>u. username u = Some n) (users s)), s))"

text \<open>
  Modelled from the spec: the Credential Store's insert. It gives the record a fresh id
  and enforces that no two records share an email or a username: an insert that would
  break this raises and stores nothing.
\<close>

definition createUser :: "insertUser \<Rightarrow> user prog" where
  "createUser iu = bnd (storeCall (CreateUser (email iu))) (\<lambda>_ s.
     if list_ex (\<lambda>u. email u = email iu \<or> (username iu \<noteq> None \<and> username u = username iu)) (users s)
     then (Inl StoreError, s)
     else
       (let u = \<lparr>username = username iu, name = name iu, email = email iu,
                 password = password iu, role = role iu,
                 favoriteArtists = favoriteArtists iu, purchasedTickets = purchasedTickets iu,
                 uid = nextId s, profilePicture = None, bio = None\<rparr>
        in (Inr u, s\<lparr>users := users s @ [u], nextId := Suc (nextId s)\<rparr>)))"

text \<open>
  Modelled from the spec: the content store (videos, events, mixes, gallery) is a generic
  store keyed by opaque identifiers; this is its create.
\<close>

definition createItem :: "resource \<Rightarrow> string \<Rightarrow> item prog" where
  "createItem r d = bnd (storeCall (CreateItem r)) (\<lambda>_ s.
     (let it = \<lparr>kind = r, itemId = nextItemId s, itemData = d\<rparr>
      in (Inr it, s\<lparr>items := items s @ [it], nextItemId := Suc (nextItemId s)\<rparr>)))"

text \<open>Modelled from the spec: the content store's update; no item with the id gives \<^verbatim>\<open>null\<close>.\<close>

definition updateItem :: "resource \<Rightarrow> nat \<Rightarrow> string \<Rightarrow> item option prog" where
  "updateItem r i d = bnd (storeCall (UpdateItem r i)) (\<lambda>_ s.
     (if list_ex (\<lambda>it. kind it = r \<and> itemId it = i) (items s)
      then (Inr (Some \<lparr>kind = r, itemId = i, itemData = d\<rparr>),
            s\<lparr>items := map (\<lambda>it. if kind it = r \<and> itemId it = i then it\<lparr>itemData := d\<rparr> else it) (items s)\<rparr>)
      else (Inr None, s)))"

text \<open>Modelled from the spec: the content store's delete; it answers whether an item was removed.\<close>

definition deleteItem :: "resource \<Rightarrow> nat \<Rightarrow> bool prog" where
  "deleteItem r i = bnd (storeCall (DeleteItem r i)) (\<lambda>_ s.
     (if list_ex (\<lambda>it. kind it = r \<and> itemId it = i) (items s)
      then (Inr True, s\<lparr>items := filter (\<lambda>it. \<not> (kind it = r \<and> itemId it = i)) (items s)\<rparr>)
      else (Inr False, s)))"

section \<open>The auth controller\<close>

subsection \<open>register\<close>

definition register :: "libs \<Rightarrow> registerBody \<Rightarrow> world \<Rightarrow> response \<times> world" where
  "register L b = tryCatchAll
     (if falsy (b_name b) \<or> falsy (b_email b) \<or> falsy (b_password b)
      then ret (json 400 (ErrorJson ''Name, email, and password are required''))
      else
        bnd (getUserByEmail (the (b_email b))) (\<lambda>existingUser.
        if existingUser \<noteq> None
        then ret (json 400 (ErrorJson ''User with this email already exists''))
        else
          bnd (if falsy (b_username b) then ret None
               else getUserByUsername (the (b_username b))) (\<lambda>existingUsername.
          if existingUsername \<noteq> None
          then ret (json 400 (ErrorJson ''Username is already taken''))
          else
            bnd draw (\<lambda>salt.
            (let hashedPassword = bcrypt_hash L (the (b_password b)) salt;
                 newUser = \<lparr>username = Some (if falsy (b_username b)
                                               then hd (splitOn (CHR ''@'') (the (b_email b)))
                                               else the (b_username b)),
                            name = the (b_name b),
                            email = the (b_email b),
                            password = Some hashedPassword,
                            role = RoleUser,
                            favoriteArtists = [],
                            purchasedTickets = []\<rparr>
             in bnd (createUser newUser) (\<lambda>user.
                (let token = jwt_sign L \<lparr>c_id = uid user, c_name = name user, c_email = email user\<rparr>;
                     userWithoutPassword = user\<lparr>password := None\<rparr>
                 in ret (json 200 (AuthJson token userWithoutPassword)))))))))
     (\<lambda>error s. (json 500 (ErrorJson ''Error creating user''), logged ''Registration error:'' s))"

subsection \<open>login\<close>

definition login :: "libs \<Rightarrow> loginBody \<Rightarrow> world \<Rightarrow> response \<times> world" where
  "login L b = tryCatchAll
     (if falsy (l_email b) \<or> falsy (l_password b)
      then ret (json 400 (ErrorJson ''Email and password are required''))
      else
        bnd (getUserByEmail (the (l_email b))) (\<lambda>found.
        (case found of
           None \<Rightarrow> ret (json 401 (ErrorJson ''Invalid email or password''))
         | Some user \<Rightarrow>
             if falsy (password user)
             then ret (json 400 (ErrorJson ''This account uses a different authentication method''))
             else
               (let isMatch = bcrypt_compare L (the (l_password b)) (the (password user))
                in if \<not> isMatch
                   then ret (json 401 (ErrorJson ''Invalid email or password''))
                   else
                     (let token = jwt_sign L \<lparr>c_id = uid user, c_name = name user, c_email = email user\<rparr>;
                          userWithoutPassword = user\<lparr>password := None\<rparr>
                      in ret (json 200 (AuthJson token userWithoutPassword)))))))
     (\<lambda>error s. (json 500 (ErrorJson ''Error logging in''), logged ''Login error:'' s))"

subsection \<open>googleLogin\<close>

text \<open>\<^verbatim>\<open>!payload || !payload.email\<close>, and the same test on the decoded segment.\<close>

definition lacksEmail :: "gpayload option \<Rightarrow> bool" where
  "lacksEmail p = (case p of None \<Rightarrow> True | Some q \<Rightarrow> falsy (g_email q))"

text \<open>
  The body of the inner \<^verbatim>\<open>try\<close>: the verification is asked for with
  \<^verbatim>\<open>audience: undefined\<close>; the store calls are inside the same \<^verbatim>\<open>try\<close>.
\<close>

definition googleLoginPrimary :: "libs \<Rightarrow> string \<Rightarrow> response prog" where
  "googleLoginPrimary L token =
     bnd (orThrow VerifyError (verifyIdToken L GOOGLE_CLIENT_ID token None)) (\<lambda>payload.
     if lacksEmail payload
     then bnd (consoleError ''Invalid Google token payload:'') (\<lambda>_.
          ret (json 400 (ErrorJson ''Invalid Google token payload'')))
     else
       bnd (getUserByEmail (the (g_email (the payload)))) (\<lambda>found.
       bnd (case found of
              Some existing \<Rightarrow> ret existing
            | None \<Rightarrow>
                bnd (if falsy (g_sub (the payload))
                     then bnd draw (\<lambda>r. ret (randomString L r))
                     else ret (the (g_sub (the payload)))) (\<lambda>secret.
                bnd draw (\<lambda>salt.
                (let hashedPassword = bcrypt_hash L secret salt;
                     newUser = \<lparr>username = Some (hd (splitOn (CHR ''@'') (the (g_email (the payload))))),
                                name = (if falsy (g_name (the payload)) then ''Google User''
                                        else the (g_name (the payload))),
                                email = the (g_email (the payload)),
                                password = Some hashedPassword,
                                role = RoleUser,
                                favoriteArtists = [],
                                purchasedTickets = []\<rparr>
                 in createUser newUser)))) (\<lambda>user.
       (let jwtToken = jwt_sign L \<lparr>c_id = uid user, c_name = name user, c_email = email user\<rparr>;
            userWithoutPassword = user\<lparr>password := None\<rparr>
        in ret (json 200 (AuthJson jwtToken userWithoutPassword))))))"

text \<open>The \<^verbatim>\<open>catch (verifyError)\<close> block: the token is split and its middle segment decoded.\<close>

definition googleLoginFallback :: "libs \<Rightarrow> string \<Rightarrow> response prog" where
  "googleLoginFallback L token =
     bnd (consoleError ''Token verification error:'') (\<lambda>_.
     tryCatch
       (let parts = splitOn (CHR ''.'') token
        in if length parts \<noteq> 3
           then ret (json 400 (ErrorJson ''Invalid token format''))
           else
             bnd (orThrow ParseError (decodeJson L (parts ! 1))) (\<lambda>decoded.
             if lacksEmail decoded
             then ret (json 400 (ErrorJson ''Invalid token content''))
             else
               bnd (getUserByEmail (the (g_email (the decoded)))) (\<lambda>found.
               bnd (case found of
                      Some existing \<Rightarrow> ret existing
                    | None \<Rightarrow>
                        bnd draw (\<lambda>r.
                        bnd draw (\<lambda>salt.
                        (let hashedPassword = bcrypt_hash L (randomString L r) salt;
                             newUser = \<lparr>username = Some (hd (splitOn (CHR ''@'') (the (g_email (the decoded))))),
                                        name = (if falsy (g_name (the decoded)) then ''Google User''
                                                else the (g_name (the decoded))),
                                        email = the (g_email (the decoded)),
                                        password = Some hashedPassword,
                                        role = RoleUser,
                                        favoriteArtists = [],
                                        purchasedTickets = []\<rparr>
                         in createUser newUser)))) (\<lambda>user.
               (let jwtToken = jwt_sign L \<lparr>c_id = uid user, c_name = name user, c_email = email user\<rparr>;
                    userWithoutPassword = user\<lparr>password := None\<rparr>
                in ret (json 200 (AuthJson jwtToken userWithoutPassword)))))))
       (\<lambda>fallbackError.
          bnd (consoleError ''Fallback token handling error:'') (\<lambda>_.
          ret (json 400 (ErrorJson ''Unable to process Google token'')))))"

definition googleLogin :: "libs \<Rightarrow> string option \<Rightarrow> world \<Rightarrow> response \<times> world" where
  "googleLogin L token = tryCatchAll
     (if falsy token
      then ret (json 400 (ErrorJson ''Google token is required''))
      else tryCatch (googleLoginPrimary L (the token)) (\<lambda>verifyError. googleLoginFallback L (the token)))
     (\<lambda>error s. (json 500 (ErrorJson ''Error with Google login''), logged ''Google login error:'' s))"

subsection \<open>registerWithGoogle\<close>

definition registerWithGooglePrimary :: "libs \<Rightarrow> string \<Rightarrow> response prog" where
  "registerWithGooglePrimary L token =
     bnd (orThrow VerifyError (verifyIdToken L GOOGLE_CLIENT_ID token None)) (\<lambda>payload.
     if lacksEmail payload
     then bnd (consoleError ''Invalid Google token payload:'') (\<lambda>_.
          ret (json 400 (ErrorJson ''Invalid Google token payload'')))
     else
       bnd (getUserByEmail (the (g_email (the payload)))) (\<lambda>existingUser.
       if existingUser \<noteq> None
       then ret (json 400 (ErrorJson ''User with this email already exists''))
       else
         bnd (if falsy (g_sub (the payload))
              then bnd draw (\<lambda>r. ret (randomString L r))
              else ret (the (g_sub (the payload)))) (\<lambda>secret.
         bnd draw (\<lambda>salt.
         (let hashedPassword = bcrypt_hash L secret salt;
              newUser = \<lparr>username = Some (hd (splitOn (CHR ''@'') (the (g_email (the payload))))),
                         name = (if falsy (g_name (the payload)) then ''Google User''
                                 else the (g_name (the payload))),
                         email = the (g_email (the payload)),
                         password = Some hashedPassword,
                         role = RoleUser,
                         favoriteArtists = [],
                         purchasedTickets = []\<rparr>
          in bnd (createUser newUser) (\<lambda>user.
             (let jwtToken = jwt_sign L \<lparr>c_id = uid user, c_name = name user, c_email = email user\<rparr>;
                  userWithoutPassword = user\<lparr>password := None\<rparr>
              in ret (json 200 (AuthJson jwtToken userWithoutPassword)))))))))"

definition registerWithGoogleFallback :: "libs \<Rightarrow> string \<Rightarrow> response prog" where
  "registerWithGoogleFallback L token =
     bnd (consoleError ''Token verification error:'') (\<lambda>_.
     tryCatch
       (let parts = splitOn (CHR ''.'') token
        in if length parts \<noteq> 3
           then ret (json 400 (ErrorJson ''Invalid token format''))
           else
             bnd (orThrow ParseError (decodeJson L (parts ! 1))) (\<lambda>decoded.
             if lacksEmail decoded
             then ret (json 400 (ErrorJson ''Invalid token content''))
             else
               bnd (getUserByEmail (the (g_email (the decoded)))) (\<lambda>existingUser.
               if existingUser \<noteq> None
               then ret (json 400 (ErrorJson ''User with this email already exists''))
               else
                 bnd draw (\<lambda>r.
                 bnd draw (\<lambda>salt.
                 (let hashedPassword = bcrypt_hash L (randomString L r) salt;
                      newUser = \<lparr>username = Some (hd (splitOn (CHR ''@'') (the (g_email (the decoded))))),
                                 name = (if falsy (g_name (the decoded)) then ''Google User''
                                         else the (g_name (the decoded))),
                                 email = the (g_email (the decoded)),
                                 password = Some hashedPassword,
                                 role = RoleUser,
                                 favoriteArtists = [],
                                 purchasedTickets = []\<rparr>
                  in bnd (createUser newUser) (\<lambda>user.
                     (let jwtToken = jwt_sign L \<lparr>c_id = uid user, c_name = name user, c_email = email user\<rparr>;
                          userWithoutPassword = user\<lparr>password := None\<rparr>
                      in ret (json 200 (AuthJson jwtToken userWithoutPassword))))))))))
       (\<lambda>fallbackError.
          bnd (consoleError ''Fallback token handling error:'') (\<lambda>_.
          ret (json 400 (ErrorJson ''Unable to process Google token'')))))"

definition registerWithGoogle :: "libs \<Rightarrow> string option \<Rightarrow> world \<Rightarrow> response \<times> world" where
  "registerWithGoogle L token = tryCatchAll
     (if falsy token
      then ret (json 400 (ErrorJson ''Google token is required''))
      else tryCatch (registerWithGooglePrimary L (the token))
             (\<lambda>verifyError. registerWithGoogleFallback L (the token)))
     (\<lambda>error s. (json 500 (ErrorJson ''Error with Google registration''), logged ''Google registration error:'' s))"

subsection \<open>getCurrentUser\<close>

text \<open>
  \<^verbatim>\<open>authHeader.split(' ')[1]\<close> is the segment after \<^verbatim>\<open>Bearer\<close>; \<^verbatim>\<open>jwt.verify\<close> raises on a
  token that is missing, malformed, expired or signed with another secret.
\<close>

definition bearerClaims :: "libs \<Rightarrow> string \<Rightarrow> claims prog" where
  "bearerClaims L authHeader =
     (case splitOn (CHR '' '') authHeader of
        _ # token # _ \<Rightarrow> orThrow JwtError (jwt_verify L token)
      | _ \<Rightarrow> throw JwtError)"

definition getCurrentUser :: "libs \<Rightarrow> string option \<Rightarrow> world \<Rightarrow> response \<times> world" where
  "getCurrentUser L authHeader = tryCatchAll
     (if falsy authHeader \<or> \<not> startsWith ''Bearer '' (the authHeader)
      then ret (json 401 (ErrorJson ''No token provided''))
      else
        tryCatch
          (bnd (bearerClaims L (the authHeader)) (\<lambda>decoded.
           bnd (getUser (c_id decoded)) (\<lambda>found.
           (case found of
              None \<Rightarrow> ret (json 404 (ErrorJson ''User not found''))
            | Some user \<Rightarrow>
                (let userWithoutPassword = user\<lparr>password := None\<rparr>
                 in ret (json 200 (UserJson userWithoutPassword)))))))
          (\<lambda>jwtError.
             bnd (consoleError ''JWT verification error:'') (\<lambda>_.
             ret (json 401 (ErrorJson ''Invalid token'')))))
     (\<lambda>error s. (json 500 (ErrorJson ''Server error during authentication''), logged ''Auth error:'' s))"

section \<open>The admin content-management routes\<close>

text \<open>
  The twelve handlers (POST, PUT and DELETE on videos, events, mixes and gallery) are
  the same text up to the store method and the wording of the messages.
\<close>

fun label :: "resource \<Rightarrow> string" where
  "label Videos = ''video''"
| "label Events = ''event''"
| "label Mixes = ''mix''"
| "label Gallery = ''gallery item''"

fun title :: "resource \<Rightarrow> string" where
  "title Videos = ''Video''"
| "title Events = ''Event''"
| "title Mixes = ''Mix''"
| "title Gallery = ''Gallery item''"

definition postItem :: "libs \<Rightarrow> resource \<Rightarrow> adminReq \<Rightarrow> world \<Rightarrow> response \<times> world" where
  "postItem L r req = tryCatchAll
     (if falsy (authorization req) \<or> \<not> startsWith ''Bearer '' (the (authorization req))
      then ret (json 401 (ErrorJson ''Authentication required''))
      else
        bnd (bearerClaims L (the (authorization req))) (\<lambda>decoded.
        bnd (getUser (c_id decoded)) (\<lambda>found.
        (case found of
           None \<Rightarrow> ret (json 403 (ErrorJson ''Admin access required''))
         | Some user \<Rightarrow>
             if role user \<noteq> RoleAdmin
             then ret (json 403 (ErrorJson ''Admin access required''))
             else bnd (createItem r (reqBody req)) (\<lambda>newItem. ret (json 201 (ItemJson newItem)))))))
     (\<lambda>error s. (json 500 (MessageJson (''Failed to create '' @ label r)),
                  logged (''Create '' @ label r @ '' error:'') s))"

definition putItem :: "libs \<Rightarrow> resource \<Rightarrow> adminReq \<Rightarrow> world \<Rightarrow> response \<times> world" where
  "putItem L r req = tryCatchAll
     (if falsy (authorization req) \<or> \<not> startsWith ''Bearer '' (the (authorization req))
      then ret (json 401 (ErrorJson ''Authentication required''))
      else
        bnd (bearerClaims L (the (authorization req))) (\<lambda>decoded.
        bnd (getUser (c_id decoded)) (\<lambda>found.
        (case found of
           None \<Rightarrow> ret (json 403 (ErrorJson ''Admin access required''))
         | Some user \<Rightarrow>
             if role user \<noteq> RoleAdmin
             then ret (json 403 (ErrorJson ''Admin access required''))
             else
               bnd (updateItem r (paramId req) (reqBody req)) (\<lambda>updated.
               (case updated of
                  None \<Rightarrow> ret (json 404 (ErrorJson (title r @ '' not found'')))
                | Some it \<Rightarrow> ret (json 200 (ItemJson it))))))))
     (\<lambda>error s. (json 500 (MessageJson (''Failed to update '' @ label r)),
                  logged (''Update '' @ label r @ '' error:'') s))"

definition deleteItemRoute :: "libs \<Rightarrow> resource \<Rightarrow> adminReq \<Rightarrow> world \<Rightarrow> response \<times> world" where
  "deleteItemRoute L r req = tryCatchAll
     (if falsy (authorization req) \<or> \<not> startsWith ''Bearer '' (the (authorization req))
      then ret (json 401 (ErrorJson ''Authentication required''))
      else
        bnd (bearerClaims L (the (authorization req))) (\<lambda>decoded.
        bnd (getUser (c_id decoded)) (\<lambda>found.
        (case found of
           None \<Rightarrow> ret (json 403 (ErrorJson ''Admin access required''))
         | Some user \<Rightarrow>
             if role user \<noteq> RoleAdmin
             then ret (json 403 (ErrorJson ''Admin access required''))
             else
               bnd (deleteItem r (paramId req)) (\<lambda>success.
               if \<not> success
               then ret (json 404 (ErrorJson (title r @ '' not found'')))
               else ret (json 204 NoBody))))))
     (\<lambda>error s. (json 500 (MessageJson (''Failed to delete '' @ label r)),
                  logged (''Delete '' @ label r @ '' error:'') s))"

section \<open>A concrete instance of the libraries\<close>

text \<open>
  An instance to run the handlers on. The one ID token the verifier knows,
  \<^verbatim>\<open>hdr.ava.sig\<close>, is signed by the identity provider for the client \<^verbatim>\<open>other-app\<close>: as in
  google-auth-library, the audience is compared only when one is required. The segment
  \<^verbatim>\<open>ava\<close> decodes to the same payload, \<^verbatim>\<open>null\<close> decodes to a value without fields, and
  nothing else parses. A session token is the text \<^verbatim>\<open>jwt\<close> followed by one \<^verbatim>\<open>x\<close> per unit
  of the subject id; only the first two are known to the verifier.
\<close>

definition avaPayload :: gpayload where
  "avaPayload = \<lparr>g_sub = Some ''sub-1'', g_email = Some ''ava@x.com'', g_name = Some ''Ava''\<rparr>"

definition demoLibs :: libs where
  "demoLibs = \<lparr>
     bcrypt_hash = (\<lambda>pw salt. ''$2a$10$'' @ replicate salt (CHR ''s'') @ ''$'' @ pw),
     bcrypt_compare = (\<lambda>pw h. drop (length h - length pw) h = pw \<and> startsWith ''$2a$10$'' h),
     jwt_sign = (\<lambda>c. ''jwt'' @ replicate (c_id c) (CHR ''x'')),
     jwt_verify = (\<lambda>t. if t = ''jwt'' then Some \<lparr>c_id = 0, c_name = ''Root'', c_email = ''root@x.com''\<rparr>
                        else if t = ''jwtx'' then Some \<lparr>c_id = 1, c_name = ''Ava'', c_email = ''ava@x.com''\<rparr>
                        else None),
     verifyIdToken = (\<lambda>cid t aud.
        if t = ''hdr.ava.sig'' \<and> (aud = None \<or> aud = Some ''other-app'') then Some (Some avaPayload)
        else None),
     decodeJson = (\<lambda>m. if m = ''ava'' then Some (Some avaPayload)
                        else if m = ''null'' then Some None else None),
     randomString = (\<lambda>n. ''0.'' @ replicate (Suc n) (CHR ''7''))\<rparr>"

definition emptyWorld :: world where
  "emptyWorld = \<lparr>users = [], nextId = 0, items = [], nextItemId = 0, faults = [],
                 calls = [], errlog = [], entropy = 0\<rparr>"

definition rootUser :: user where
  "rootUser = \<lparr>username = Some ''root'', name = ''Root'', email = ''root@x.com'',
               password = Some ''$2a$10$$toor'', role = RoleAdmin,
               favoriteArtists = [], purchasedTickets = [],
               uid = 0, profilePicture = None, bio = None\<rparr>"

definition avaUser :: user where
  "avaUser = \<lparr>username = Some ''ava'', name = ''Ava'', email = ''ava@x.com'',
              password = Some ''$2a$10$$secret1'', role = RoleUser,
              favoriteArtists = [], purchasedTickets = [],
              uid = 1, profilePicture = None, bio = None\<rparr>"

definition demoWorld :: world where
  "demoWorld = emptyWorld\<lparr>users := [rootUser, avaUser], nextId := 2\<rparr>"

text \<open>
  A second instance, for a new Google account whose email has the local part of a stored
  username: the token \<^verbatim>\<open>hdr.avay.sig\<close> verifies with the payload of \<^verbatim>\<open>ava@y.com\<close>, and its
  middle segment decodes to the same payload.
\<close>

definition avaOtherPayload :: gpayload where
  "avaOtherPayload = \<lparr>g_sub = Some ''sub-2'', g_email = Some ''ava@y.com'', g_name = Some ''Ava Y''\<rparr>"

definition collidingLibs :: libs where
  "collidingLibs = demoLibs\<lparr>
     verifyIdToken := (\<lambda>cid t aud. if t = ''hdr.avay.sig'' then Some (Some avaOtherPayload) else None),
     decodeJson := (\<lambda>m. if m = ''avay'' then Some (Some avaOtherPayload) else None)\<rparr>"

section \<open>Notions used in the statements and proofs\<close>

text \<open>
  The user object carried by a response, if any: the \<^verbatim>\<open>user\<close> member of
  \<^verbatim>\<open>{ token, user }\<close> and of \<^verbatim>\<open>{ user }\<close>.
\<close>

definition responseUser :: "response \<Rightarrow> user option" where
  "responseUser r = (case body r of AuthJson t u \<Rightarrow> Some u | UserJson u \<Rightarrow> Some u | _ \<Rightarrow> None)"

definition scrubbed :: "response \<Rightarrow> bool" where
  "scrubbed r = (case body r of AuthJson t u \<Rightarrow> password u = None | UserJson u \<Rightarrow> password u = None | _ \<Rightarrow> True)"

text \<open>
  The email an assertion resolves to in \<^verbatim>\<open>googleLogin\<close> and \<^verbatim>\<open>registerWithGoogle\<close>: the
  email of the verified payload, or, when the verification raises, the email of the decoded
  middle segment; \<open>None\<close> when the handlers find no email.
\<close>

definition assertionEmail :: "libs \<Rightarrow> string \<Rightarrow> string option" where
  "assertionEmail L token =
     (case verifyIdToken L GOOGLE_CLIENT_ID token None of
        Some payload \<Rightarrow> (if lacksEmail payload then None else g_email (the payload))
      | None \<Rightarrow>
          (let parts = splitOn (CHR ''.'') token
           in if length parts \<noteq> 3 then None
              else (case decodeJson L (parts ! 1) of
                      None \<Rightarrow> None
                    | Some decoded \<Rightarrow> (if lacksEmail decoded then None else g_email (the decoded)))))"

text \<open>The record \<open>createUser\<close> stores for an \<open>insertUser\<close> in a given world.\<close>

definition stored :: "insertUser \<Rightarrow> world \<Rightarrow> user" where
  "stored iu s = \<lparr>username = username iu, name = name iu, email = email iu,
                 password = password iu, role = role iu,
                 favoriteArtists = favoriteArtists iu, purchasedTickets = purchasedTickets iu,
                 uid = nextId s, profilePicture = None, bio = None\<rparr>"

text \<open>
  A partial-correctness triple for programs that may raise: from a world satisfying \<open>P\<close>,
  a returned value satisfies \<open>Q\<close> and a raised exception leaves a world satisfying \<open>E\<close>.
\<close>

definition triple :: "(world \<Rightarrow> bool) \<Rightarrow> 'a prog \<Rightarrow> ('a \<Rightarrow> world \<Rightarrow> bool) \<Rightarrow> (world \<Rightarrow> bool) \<Rightarrow> bool" where
  "triple P m Q E = (\<forall>s. P s \<longrightarrow> (case m s of (Inl e, s1) \<Rightarrow> E s1 | (Inr v, s1) \<Rightarrow> Q v s1))"

definition atUsers :: "user list \<Rightarrow> world \<Rightarrow> bool" where
  "atUsers U s = (users s = U)"

definition created :: "insertUser \<Rightarrow> user \<Rightarrow> bool" where
  "created iu u = (username u = username iu \<and> name u = name iu \<and> email u = email iu
     \<and> password u = password iu \<and> role u = role iu
     \<and> favoriteArtists u = favoriteArtists iu \<and> purchasedTickets u = purchasedTickets iu)"

text \<open>What a successful \<open>register\<close> leaves behind, for the users \<open>U\<close> it started from.\<close>

definition registered :: "libs \<Rightarrow> registerBody \<Rightarrow> user list \<Rightarrow> response \<Rightarrow> world \<Rightarrow> bool" where
  "registered L b U r s =
     (\<forall>t u. body r = AuthJson t u \<longrightarrow>
        (\<exists>h. users s = U @ [u\<lparr>password := Some h\<rparr>])
        \<and> username u = Some (if falsy (b_username b) then takeWhile (\<lambda>c. c \<noteq> CHR ''@'') (the (b_email b))
                               else the (b_username b))
        \<and> name u = the (b_name b) \<and> email u = the (b_email b) \<and> password u = None
        \<and> role u = RoleUser \<and> favoriteArtists u = [] \<and> purchasedTickets u = [])"

definition avaBody :: registerBody where
  "avaBody = \<lparr>b_name = Some ''Ava'', b_email = Some ''ava@x.com'', b_password = Some ''secret1'',
              b_username = None\<rparr>"

section \<open>Strings and lists\<close>

lemma splitOn_nonempty: "splitOn c s \<noteq> []"
  by (induction s) (auto split: list.splits)

lemma hd_splitOn: "hd (splitOn c s) = takeWhile (\<lambda>x. x \<noteq> c) s"
proof (induction s)
  case Nil
  show ?case by simp
next
  case (Cons x xs)
  show ?case
  proof (cases "x = c")
    case True
    then show ?thesis by simp
  next
    case False
    obtain p ps where sp: "splitOn c xs = p # ps"
      using splitOn_nonempty [of c xs] by (cases "splitOn c xs") auto
    with False Cons show ?thesis by simp
  qed
qed

lemma find_None_iff_set: "(find P xs = None) = (\<forall>x \<in> set xs. \<not> P x)"
  by (induction xs) auto

section \<open>Running the sequencing combinators\<close>

lemma bnd_apply: "bnd m f s = (case m s of (Inl e, s1) \<Rightarrow> (Inl e, s1) | (Inr v, s1) \<Rightarrow> f v s1)"
  by (simp add: bnd_def)

lemma tryCatch_apply: "tryCatch m h s = (case m s of (Inl e, s1) \<Rightarrow> h e s1 | (Inr v, s1) \<Rightarrow> (Inr v, s1))"
  by (simp add: tryCatch_def)

lemma tryCatchAll_apply: "tryCatchAll m h s = (case m s of (Inl e, s1) \<Rightarrow> h e s1 | (Inr r, s1) \<Rightarrow> (r, s1))"
  by (simp add: tryCatchAll_def)

lemma ret_apply: "ret v s = (Inr v, s)"
  by (simp add: ret_def)

lemma throw_apply: "throw e s = (Inl e, s)"
  by (simp add: throw_def)

lemma orThrow_apply: "orThrow e r s = (case r of None \<Rightarrow> (Inl e, s) | Some v \<Rightarrow> (Inr v, s))"
  by (cases r) (simp_all add: orThrow_def ret_def throw_def)

lemma consoleError_apply: "consoleError msg s = (Inr (), logged msg s)"
  by (simp add: consoleError_def logged_def)

lemma draw_apply: "draw s = (Inr (entropy s), s\<lparr>entropy := Suc (entropy s)\<rparr>)"
  by (simp add: draw_def)

lemmas run_simps = bnd_apply tryCatch_apply tryCatchAll_apply ret_apply throw_apply orThrow_apply
  consoleError_apply draw_apply

lemma bnd_ret_left: "bnd (ret v) f = f v"
  by (simp add: bnd_def ret_def)

lemma bnd_assoc: "bnd (bnd m f) g = bnd m (\<lambda>x. bnd (f x) g)"
  by (auto simp: bnd_def split: prod.splits sum.splits)

section \<open>Rules for triples\<close>

lemma triple_run: "triple P m Q E \<Longrightarrow> P s \<Longrightarrow> (case m s of (Inl e, s1) \<Rightarrow> E s1 | (Inr v, s1) \<Rightarrow> Q v s1)"
  unfolding triple_def by (erule allE, erule impE, assumption, assumption)

lemma triple_ret: "(\<And>s. P s \<Longrightarrow> Q v s) \<Longrightarrow> triple P (ret v) Q E"
  by (simp add: triple_def ret_def)

lemma triple_bnd:
  assumes m: "triple P m R E" and f: "\<And>v. triple (R v) (f v) Q E"
  shows "triple P (bnd m f) Q E"
  unfolding triple_def
proof (intro allI impI)
  fix s
  assume P: "P s"
  obtain x s1 where ms: "m s = (x, s1)" by (cases "m s")
  show "case bnd m f s of (Inl e, s1) \<Rightarrow> E s1 | (Inr v, s1) \<Rightarrow> Q v s1"
  proof (cases x)
    case (Inl e)
    with triple_run [OF m P] ms show ?thesis by (simp add: bnd_def)
  next
    case (Inr v)
    with triple_run [OF m P] ms have "R v s1" by simp
    from triple_run [OF f this] Inr ms show ?thesis by (simp add: bnd_def)
  qed
qed

lemma triple_tryCatch:
  assumes m: "triple P m Q R" and h: "\<And>e. triple R (h e) Q E"
  shows "triple P (tryCatch m h) Q E"
  unfolding triple_def
proof (intro allI impI)
  fix s
  assume P: "P s"
  obtain x s1 where ms: "m s = (x, s1)" by (cases "m s")
  show "case tryCatch m h s of (Inl e, s1) \<Rightarrow> E s1 | (Inr v, s1) \<Rightarrow> Q v s1"
  proof (cases x)
    case (Inl e)
    with triple_run [OF m P] ms have "R s1" by simp
    from triple_run [OF h this] Inl ms show ?thesis by (simp add: tryCatch_def)
  next
    case (Inr v)
    with triple_run [OF m P] ms show ?thesis by (simp add: tryCatch_def)
  qed
qed

lemma triple_if: "(c \<Longrightarrow> triple P a Q E) \<Longrightarrow> (\<not> c \<Longrightarrow> triple P b Q E) \<Longrightarrow> triple P (if c then a else b) Q E"
  by simp

lemma triple_case_option:
  "(x = None \<Longrightarrow> triple P a Q E) \<Longrightarrow> (\<And>v. x = Some v \<Longrightarrow> triple P (b v) Q E)
   \<Longrightarrow> triple P (case x of None \<Rightarrow> a | Some v \<Rightarrow> b v) Q E"
  by (cases x) simp_all

lemma triple_any: "triple P m (\<lambda>_ _. True) (\<lambda>_. True)"
  by (auto simp: triple_def split: prod.splits sum.splits)

lemma triple_bnd_any: "(\<And>v. triple (\<lambda>_. True) (f v) Q (\<lambda>_. True)) \<Longrightarrow> triple P (bnd m f) Q (\<lambda>_. True)"
  by (rule triple_bnd [where R = "\<lambda>_ _. True"]) (rule triple_any)

lemma triple_tryCatch_any:
  "triple P m Q (\<lambda>_. True) \<Longrightarrow> (\<And>e. triple (\<lambda>_. True) (h e) Q (\<lambda>_. True))
   \<Longrightarrow> triple P (tryCatch m h) Q (\<lambda>_. True)"
  by (rule triple_tryCatch)

lemma triple_pure:
  assumes "A \<Longrightarrow> triple P m Q E"
  shows "triple (\<lambda>s. P s \<and> A) m Q E"
  unfolding triple_def
proof (intro allI impI)
  fix s
  assume "P s \<and> A"
  then have P: "P s" and A: "A" by simp_all
  from triple_run [OF assms [OF A] P]
  show "case m s of (Inl e, s1) \<Rightarrow> E s1 | (Inr v, s1) \<Rightarrow> Q v s1" .
qed

lemma triple_bnd_ret: "triple P (f v) Q E \<Longrightarrow> triple P (bnd (ret v) f) Q E"
  by (simp add: bnd_ret_left)

lemma triple_bnd_assoc: "triple P (bnd m (\<lambda>x. bnd (f x) g)) Q E \<Longrightarrow> triple P (bnd (bnd m f) g) Q E"
  by (simp add: bnd_assoc)

lemma triple_bnd_if:
  "(c \<Longrightarrow> triple P (bnd a k) Q E) \<Longrightarrow> (\<not> c \<Longrightarrow> triple P (bnd b k) Q E)
   \<Longrightarrow> triple P (bnd (if c then a else b) k) Q E"
  by simp

lemma triple_bnd_case_option:
  "(x = None \<Longrightarrow> triple P (bnd a k) Q E) \<Longrightarrow> (\<And>v. x = Some v \<Longrightarrow> triple P (bnd (b v) k) Q E)
   \<Longrightarrow> triple P (bnd (case x of None \<Rightarrow> a | Some v \<Rightarrow> b v) k) Q E"
  by (cases x) simp_all

lemmas bnd_rules = triple_bnd_ret triple_bnd_assoc triple_bnd_if triple_bnd_case_option

lemma tryCatchAll_rule:
  assumes m: "triple P m Q E" and P: "P s"
    and ok: "\<And>r s1. Q r s1 \<Longrightarrow> G (r, s1)"
    and caught: "\<And>e s1. E s1 \<Longrightarrow> G (h e s1)"
  shows "G (tryCatchAll m h s)"
proof -
  obtain x s1 where ms: "m s = (x, s1)" by (cases "m s")
  show ?thesis
  proof (cases x)
    case (Inl e)
    with triple_run [OF m P] ms have "E s1" by simp
    from caught [OF this] Inl ms show ?thesis by (simp add: tryCatchAll_def)
  next
    case (Inr r)
    with triple_run [OF m P] ms have "Q r s1" by simp
    from ok [OF this] Inr ms show ?thesis by (simp add: tryCatchAll_def)
  qed
qed

section \<open>Store calls\<close>

text \<open>
  When no failure is scheduled, a store call answers from the stored users.
\<close>

lemma storeCall_nofault: "faults s = [] \<Longrightarrow> storeCall c s = (Inr (), s\<lparr>calls := calls s @ [c]\<rparr>)"
  by (simp add: storeCall_def)

lemma getUser_nofault:
  "faults s = [] \<Longrightarrow> getUser i s = (Inr (find (\<lambda>u. uid u = i) (users s)), s\<lparr>calls := calls s @ [GetUser i]\<rparr>)"
  by (simp add: getUser_def bnd_apply storeCall_nofault)

lemma getUserByEmail_nofault:
  "faults s = [] \<Longrightarrow> getUserByEmail e s =
     (Inr (find (\<lambda>u. email u = e) (users s)), s\<lparr>calls := calls s @ [GetUserByEmail e]\<rparr>)"
  by (simp add: getUserByEmail_def bnd_apply storeCall_nofault)

lemma getUserByUsername_nofault:
  "faults s = [] \<Longrightarrow> getUserByUsername n s =
     (Inr (find (\<lambda>u. username u = Some n) (users s)), s\<lparr>calls := calls s @ [GetUserByUsername n]\<rparr>)"
  by (simp add: getUserByUsername_def bnd_apply storeCall_nofault)

lemma createUser_nofault:
  assumes "faults s = []"
    and "\<forall>x \<in> set (users s). email x \<noteq> email iu \<and> (username iu = None \<or> username x \<noteq> username iu)"
  shows "createUser iu s =
     (Inr (stored iu s),
      s\<lparr>calls := calls s @ [CreateUser (email iu)], users := users s @ [stored iu s], nextId := Suc (nextId s)\<rparr>)"
proof -
  from assms(2) have "\<not> list_ex (\<lambda>u. email u = email iu \<or> (username iu \<noteq> None \<and> username u = username iu)) (users s)"
    by (auto simp: list_ex_iff)
  with assms(1) show ?thesis
    by (simp add: createUser_def bnd_apply storeCall_nofault stored_def Let_def)
qed

text \<open>
  Whatever the schedule, only \<open>createUser\<close> changes the stored users, and only by appending
  the record it returns.
\<close>

lemma storeCall_users: "triple (atUsers U) (storeCall c) (\<lambda>_. atUsers U) (atUsers U)"
  by (auto simp: triple_def storeCall_def atUsers_def split: list.splits)

lemma getUserByEmail_users:
  "triple (atUsers U) (getUserByEmail e) (\<lambda>r s. atUsers U s \<and> r = find (\<lambda>u. email u = e) U) (atUsers U)"
  unfolding getUserByEmail_def
  by (rule triple_bnd [OF storeCall_users]) (simp add: triple_def atUsers_def)

lemma getUserByUsername_users:
  "triple (atUsers U) (getUserByUsername n) (\<lambda>r s. atUsers U s \<and> r = find (\<lambda>u. username u = Some n) U) (atUsers U)"
  unfolding getUserByUsername_def
  by (rule triple_bnd [OF storeCall_users]) (simp add: triple_def atUsers_def)

lemma createUser_users:
  "triple (atUsers U) (createUser iu)
     (\<lambda>u s. atUsers (U @ [u]) s \<and> created iu u \<and> (\<forall>x \<in> set U. email x \<noteq> email iu)) (atUsers U)"
  unfolding createUser_def
  by (rule triple_bnd [OF storeCall_users])
     (auto simp: triple_def atUsers_def created_def list_ex_iff Let_def)

lemma users_ret: "(\<And>s. atUsers U s \<Longrightarrow> Q v s) \<Longrightarrow> triple (atUsers U) (ret v) Q E"
  by (rule triple_ret)

lemma users_getUserByEmail:
  "triple (atUsers U) (f (find (\<lambda>u. email u = e) U)) Q (atUsers U)
   \<Longrightarrow> triple (atUsers U) (bnd (getUserByEmail e) f) Q (atUsers U)"
  by (rule triple_bnd [OF getUserByEmail_users]) (rule triple_pure, simp)

lemma users_getUserByUsername:
  "triple (atUsers U) (f (find (\<lambda>u. username u = Some n) U)) Q (atUsers U)
   \<Longrightarrow> triple (atUsers U) (bnd (getUserByUsername n) f) Q (atUsers U)"
  by (rule triple_bnd [OF getUserByUsername_users]) (rule triple_pure, simp)

lemma users_createUser:
  "(\<And>u. created iu u \<Longrightarrow> \<forall>x \<in> set U. email x \<noteq> email iu \<Longrightarrow> triple (atUsers (U @ [u])) (f u) Q (atUsers U))
   \<Longrightarrow> triple (atUsers U) (bnd (createUser iu) f) Q (atUsers U)"
  by (rule triple_bnd [OF createUser_users]) (simp add: triple_def)

lemma users_draw:
  "(\<And>r. triple (atUsers U) (f r) Q E) \<Longrightarrow> triple (atUsers U) (bnd draw f) Q E"
  by (rule triple_bnd [where R = "\<lambda>_. atUsers U"]) (simp_all add: triple_def draw_def atUsers_def)

lemma users_consoleError:
  "triple (atUsers U) (f ()) Q E \<Longrightarrow> triple (atUsers U) (bnd (consoleError msg) f) Q E"
  by (rule triple_bnd [where R = "\<lambda>_. atUsers U"]) (simp_all add: triple_def consoleError_def atUsers_def)

lemma users_orThrow:
  "(\<And>v. r = Some v \<Longrightarrow> triple (atUsers U) (f v) Q (atUsers U))
   \<Longrightarrow> triple (atUsers U) (bnd (orThrow e r) f) Q (atUsers U)"
  by (cases r) (simp_all add: triple_def bnd_apply orThrow_apply)

lemma users_tryCatch:
  "triple (atUsers U) m Q (atUsers U) \<Longrightarrow> (\<And>e. triple (atUsers U) (h e) Q E)
   \<Longrightarrow> triple (atUsers U) (tryCatch m h) Q E"
  by (rule triple_tryCatch)

lemmas users_rules = users_getUserByEmail users_getUserByUsername users_createUser users_draw
  users_consoleError users_orThrow users_tryCatch triple_if triple_case_option users_ret

lemma password_restore: "password (u::user) = Some h \<Longrightarrow> u = u\<lparr>password := Some h\<rparr>"
  by (cases u) simp

section \<open>Evaluation on the concrete instance\<close>

lemmas store_defs = storeCall_def getUser_def getUserByEmail_def getUserByUsername_def createUser_def
  createItem_def updateItem_def deleteItem_def

lemmas demo_defs = demoLibs_def emptyWorld_def demoWorld_def rootUser_def avaUser_def avaPayload_def
  GOOGLE_CLIENT_ID_def

lemmas eval_simps = run_simps store_defs demo_defs falsy_def lacksEmail_def startsWith_def json_def
  logged_def Let_def bearerClaims_def

section \<open>Success responses carry no password\<close>

lemmas scrub_rules = triple_bnd_any triple_if triple_tryCatch_any triple_case_option triple_ret

lemma register_scrubbed: "scrubbed (fst (register L b s))"
  unfolding register_def Let_def
  by (rule tryCatchAll_rule [where G = "\<lambda>x. scrubbed (fst x)" and P = "\<lambda>_. True"
        and Q = "\<lambda>r _. scrubbed r" and E = "\<lambda>_. True"])
     ((intro scrub_rules)?, simp_all add: scrubbed_def json_def)+

lemma login_scrubbed: "scrubbed (fst (login L b s))"
  unfolding login_def Let_def
  by (rule tryCatchAll_rule [where G = "\<lambda>x. scrubbed (fst x)" and P = "\<lambda>_. True"
        and Q = "\<lambda>r _. scrubbed r" and E = "\<lambda>_. True"])
     ((intro scrub_rules)?, simp_all add: scrubbed_def json_def)+

lemma googleLogin_scrubbed: "scrubbed (fst (googleLogin L tok s))"
  unfolding googleLogin_def googleLoginPrimary_def googleLoginFallback_def Let_def
  by (rule tryCatchAll_rule [where G = "\<lambda>x. scrubbed (fst x)" and P = "\<lambda>_. True"
        and Q = "\<lambda>r _. scrubbed r" and E = "\<lambda>_. True"])
     ((intro scrub_rules)?, simp_all add: scrubbed_def json_def)+

lemma registerWithGoogle_scrubbed: "scrubbed (fst (registerWithGoogle L tok s))"
  unfolding registerWithGoogle_def registerWithGooglePrimary_def registerWithGoogleFallback_def Let_def
  by (rule tryCatchAll_rule [where G = "\<lambda>x. scrubbed (fst x)" and P = "\<lambda>_. True"
        and Q = "\<lambda>r _. scrubbed r" and E = "\<lambda>_. True"])
     ((intro scrub_rules)?, simp_all add: scrubbed_def json_def)+

lemma getCurrentUser_scrubbed: "scrubbed (fst (getCurrentUser L h s))"
  unfolding getCurrentUser_def Let_def
  by (rule tryCatchAll_rule [where G = "\<lambda>x. scrubbed (fst x)" and P = "\<lambda>_. True"
        and Q = "\<lambda>r _. scrubbed r" and E = "\<lambda>_. True"])
     ((intro scrub_rules)?, simp_all add: scrubbed_def json_def)+

lemma scrubbed_responseUser: "scrubbed r \<Longrightarrow> responseUser r = Some u \<Longrightarrow> password u = None"
  by (auto simp: scrubbed_def responseUser_def split: resBody.splits)

text \<open>
  C1. Whatever \<open>register\<close>, \<open>login\<close>, \<open>googleLogin\<close>, \<open>registerWithGoogle\<close> or
  \<open>getCurrentUser\<close> answers, for every request, every world (so every stored password
  hash) and every behaviour of the libraries: if the response carries a user object, that
  object's password field is undefined.
\<close>

theorem response_user_has_no_password:
  assumes "r = fst (register L rb s) \<or> r = fst (login L lb s) \<or> r = fst (googleLogin L tok s)
         \<or> r = fst (registerWithGoogle L tok s) \<or> r = fst (getCurrentUser L hdr s)"
    and "responseUser r = Some u"
  shows "password u = None"
proof -
  from assms(1) have "scrubbed r"
    using register_scrubbed [of L rb s] login_scrubbed [of L lb s] googleLogin_scrubbed [of L tok s]
      registerWithGoogle_scrubbed [of L tok s] getCurrentUser_scrubbed [of L hdr s]
    by auto
  from scrubbed_responseUser [OF this assms(2)] show ?thesis .
qed

theorem response_user_has_no_password_witness:
  "responseUser (fst (login demoLibs \<lparr>l_email = Some ''ava@x.com'', l_password = Some ''secret1''\<rparr> demoWorld))
     = Some (avaUser\<lparr>password := None\<rparr>)
   \<and> password (avaUser\<lparr>password := None\<rparr>) = None"
proof -
  have h: "responseUser (fst (login demoLibs \<lparr>l_email = Some ''ava@x.com'', l_password = Some ''secret1''\<rparr> demoWorld))
     = Some (avaUser\<lparr>password := None\<rparr>)"
    by (simp add: login_def responseUser_def eval_simps)
  have "password (avaUser\<lparr>password := None\<rparr>) = None"
    by (rule response_user_has_no_password [OF _ h, where L = demoLibs and s = demoWorld
          and lb = "\<lparr>l_email = Some ''ava@x.com'', l_password = Some ''secret1''\<rparr>"
          and rb = avaBody and tok = None and hdr = None]) simp
  with h show ?thesis by (intro conjI)
qed

section \<open>The audience of an assertion\<close>









section \<open>Store exceptions\<close>

text \<open>
  In \<open>register\<close> and \<open>login\<close> the only \<^verbatim>\<open>catch\<close> is the outer one: a raising store lookup
  gives 500.
\<close>

lemma store_exception_in_register_and_login:
  assumes "faults s = True # fs"
  shows "(\<not> falsy (b_name rb) \<and> \<not> falsy (b_email rb) \<and> \<not> falsy (b_password rb) \<longrightarrow>
            fst (register L rb s) = json 500 (ErrorJson ''Error creating user''))
       \<and> (\<not> falsy (l_email lb) \<and> \<not> falsy (l_password lb) \<longrightarrow>
            fst (login L lb s) = json 500 (ErrorJson ''Error logging in''))"
  using assms
  by (simp add: register_def login_def run_simps getUserByEmail_def storeCall_def)

text \<open>
  C3 on the code: a store exception inside the inner \<^verbatim>\<open>try\<close> of \<open>googleLogin\<close> is caught as a
  verification error. With the first store call raising, the handler enters the fallback
  and answers 200 with a token; with the first two raising, it answers 400. In
  \<open>registerWithGoogle\<close> two raising store calls give 400, and in \<open>getCurrentUser\<close> a raising
  lookup gives 401 \<^verbatim>\<open>Invalid token\<close>. None of these is a 500.
\<close>

theorem store_exception_not_500:
  "fst (googleLogin demoLibs (Some ''hdr.ava.sig'') (demoWorld\<lparr>faults := [True]\<rparr>))
     = json 200 (AuthJson ''jwtx'' (avaUser\<lparr>password := None\<rparr>))
   \<and> errlog (snd (googleLogin demoLibs (Some ''hdr.ava.sig'') (demoWorld\<lparr>faults := [True]\<rparr>)))
     = [''Token verification error:'']
   \<and> fst (googleLogin demoLibs (Some ''hdr.ava.sig'') (demoWorld\<lparr>faults := [True, True]\<rparr>))
     = json 400 (ErrorJson ''Unable to process Google token'')
   \<and> fst (registerWithGoogle demoLibs (Some ''hdr.ava.sig'') (demoWorld\<lparr>faults := [True, True]\<rparr>))
     = json 400 (ErrorJson ''Unable to process Google token'')
   \<and> fst (getCurrentUser demoLibs (Some ''Bearer jwtx'') (demoWorld\<lparr>faults := [True]\<rparr>))
     = json 401 (ErrorJson ''Invalid token'')"
  by (simp add: googleLogin_def googleLoginPrimary_def googleLoginFallback_def
      registerWithGoogle_def registerWithGooglePrimary_def registerWithGoogleFallback_def
      getCurrentUser_def eval_simps)

section \<open>login\<close>

text \<open>
  C4. For a \<open>login\<close> with both fields present, when the store lookup does not raise: if no
  stored record has the email, or the record found has a password hash that does not
  verify against the supplied password, the response is 401 \<^verbatim>\<open>Invalid email or password\<close>;
  if the record found has no password hash, the response is the distinct 400
  \<^verbatim>\<open>This account uses a different authentication method\<close>. Each of these responses is an
  error body, so no token is issued, and the stored users are unchanged.
\<close>

theorem login_rejects:
  assumes "\<not> falsy (l_email b)" and "\<not> falsy (l_password b)" and "faults s = []"
  shows "(find (\<lambda>u. email u = the (l_email b)) (users s) = None \<longrightarrow>
            fst (login L b s) = json 401 (ErrorJson ''Invalid email or password''))
       \<and> (\<forall>u. find (\<lambda>u. email u = the (l_email b)) (users s) = Some u \<and> \<not> falsy (password u)
              \<and> \<not> bcrypt_compare L (the (l_password b)) (the (password u)) \<longrightarrow>
            fst (login L b s) = json 401 (ErrorJson ''Invalid email or password''))
       \<and> (\<forall>u. find (\<lambda>u. email u = the (l_email b)) (users s) = Some u \<and> falsy (password u) \<longrightarrow>
            fst (login L b s) = json 400 (ErrorJson ''This account uses a different authentication method''))
       \<and> users (snd (login L b s)) = users s"
  using assms
  by (auto simp: login_def run_simps getUserByEmail_nofault Let_def split: option.splits)

theorem login_rejects_witness:
  "fst (login demoLibs \<lparr>l_email = Some ''nobody@x.com'', l_password = Some ''secret1''\<rparr> demoWorld)
     = json 401 (ErrorJson ''Invalid email or password'')
   \<and> fst (login demoLibs \<lparr>l_email = Some ''ava@x.com'', l_password = Some ''wrong''\<rparr> demoWorld)
     = json 401 (ErrorJson ''Invalid email or password'')
   \<and> fst (login demoLibs \<lparr>l_email = Some ''ava@x.com'', l_password = Some ''secret1''\<rparr>
            (demoWorld\<lparr>users := [avaUser\<lparr>password := None\<rparr>]\<rparr>))
     = json 400 (ErrorJson ''This account uses a different authentication method'')"
proof -
  have a: "fst (login demoLibs \<lparr>l_email = Some ''nobody@x.com'', l_password = Some ''secret1''\<rparr> demoWorld)
     = json 401 (ErrorJson ''Invalid email or password'')"
    using login_rejects [of "\<lparr>l_email = Some ''nobody@x.com'', l_password = Some ''secret1''\<rparr>" demoWorld demoLibs]
    by (simp add: falsy_def demo_defs)
  have b: "fst (login demoLibs \<lparr>l_email = Some ''ava@x.com'', l_password = Some ''wrong''\<rparr> demoWorld)
     = json 401 (ErrorJson ''Invalid email or password'')"
    using login_rejects [of "\<lparr>l_email = Some ''ava@x.com'', l_password = Some ''wrong''\<rparr>" demoWorld demoLibs]
    by (simp add: falsy_def demo_defs startsWith_def)
  have c: "fst (login demoLibs \<lparr>l_email = Some ''ava@x.com'', l_password = Some ''secret1''\<rparr>
            (demoWorld\<lparr>users := [avaUser\<lparr>password := None\<rparr>]\<rparr>))
     = json 400 (ErrorJson ''This account uses a different authentication method'')"
    using login_rejects [of "\<lparr>l_email = Some ''ava@x.com'', l_password = Some ''secret1''\<rparr>"
        "demoWorld\<lparr>users := [avaUser\<lparr>password := None\<rparr>]\<rparr>" demoLibs]
    by (simp add: falsy_def demo_defs)
  from a b c show ?thesis by (intro conjI)
qed

section \<open>register\<close>


lemma register_success:
  "registered L b (users s) (fst (register L b s)) (snd (register L b s))"
  unfolding register_def Let_def
  apply (rule tryCatchAll_rule [where G = "\<lambda>x. registered L b (users s) (fst x) (snd x)" and P = "atUsers (users s)"
        and Q = "registered L b (users s)" and E = "atUsers (users s)"])
     apply (intro users_rules bnd_rules)
  apply (auto simp: registered_def json_def atUsers_def created_def hd_splitOn intro: password_restore)
  done



lemma register_creates_ava:
  assumes "faults s = []"
    and "\<forall>x \<in> set (users s). email x \<noteq> ''ava@x.com'' \<and> username x \<noteq> Some ''ava''"
  shows "fst (register L avaBody s)
     = json 200 (AuthJson (jwt_sign L \<lparr>c_id = nextId s, c_name = ''Ava'', c_email = ''ava@x.com''\<rparr>)
         \<lparr>username = Some ''ava'', name = ''Ava'', email = ''ava@x.com'', password = None, role = RoleUser,
          favoriteArtists = [], purchasedTickets = [], uid = nextId s, profilePicture = None, bio = None\<rparr>)"
proof -
  from assms(2) have "find (\<lambda>u. email u = ''ava@x.com'') (users s) = None"
    by (simp add: find_None_iff_set)
  with assms show ?thesis
    by (simp add: register_def avaBody_def run_simps getUserByEmail_nofault createUser_nofault
        hd_splitOn falsy_def Let_def stored_def json_def)
qed

text \<open>
  C9. Whenever \<open>register\<close> succeeds on a request with no username (undefined or empty),
  the user in the response has the username that is the part of the email before the first
  \<^verbatim>\<open>@\<close>, the role \<^verbatim>\<open>user\<close>, empty favourite-artists and purchased-tickets lists and no
  password, and the record appended to the store is that user with the password hash. For
  the request \<^verbatim>\<open>{name: "Ava", email: "ava@x.com", password: "secret1"}\<close>, in a world where the
  store raises nothing (no failure scheduled, email and username \<^verbatim>\<open>ava\<close> not taken), the
  response is 200 with a token and a user whose username is \<^verbatim>\<open>ava\<close> and whose password is
  undefined.
\<close>

theorem register_default_username:
  "(falsy (b_username b) \<and> body (fst (register L b s)) = AuthJson t u \<longrightarrow>
       username u = Some (takeWhile (\<lambda>c. c \<noteq> CHR ''@'') (the (b_email b)))
     \<and> role u = RoleUser \<and> favoriteArtists u = [] \<and> purchasedTickets u = [] \<and> password u = None
     \<and> (\<exists>h. users (snd (register L b s)) = users s @ [u\<lparr>password := Some h\<rparr>]))
   \<and> (faults s = [] \<and> (\<forall>x \<in> set (users s). email x \<noteq> ''ava@x.com'' \<and> username x \<noteq> Some ''ava'') \<longrightarrow>
       (\<exists>tk v. fst (register L \<lparr>b_name = Some ''Ava'', b_email = Some ''ava@x.com'',
                                b_password = Some ''secret1'', b_username = None\<rparr> s)
                 = json 200 (AuthJson tk v)
              \<and> username v = Some ''ava'' \<and> password v = None))"
proof (rule conjI; rule impI)
  assume "falsy (b_username b) \<and> body (fst (register L b s)) = AuthJson t u"
  with register_success [of L b s]
  show "username u = Some (takeWhile (\<lambda>c. c \<noteq> CHR ''@'') (the (b_email b)))
     \<and> role u = RoleUser \<and> favoriteArtists u = [] \<and> purchasedTickets u = [] \<and> password u = None
     \<and> (\<exists>h. users (snd (register L b s)) = users s @ [u\<lparr>password := Some h\<rparr>])"
    by (simp add: registered_def)
next
  assume "faults s = [] \<and> (\<forall>x \<in> set (users s). email x \<noteq> ''ava@x.com'' \<and> username x \<noteq> Some ''ava'')"
  with register_creates_ava [of s L]
  show "\<exists>tk v. fst (register L \<lparr>b_name = Some ''Ava'', b_email = Some ''ava@x.com'',
                                b_password = Some ''secret1'', b_username = None\<rparr> s)
                 = json 200 (AuthJson tk v)
              \<and> username v = Some ''ava'' \<and> password v = None"
    by (simp add: avaBody_def json_def)
qed

theorem register_default_username_witness:
  "username (avaUser\<lparr>password := None, uid := 0\<rparr>) = Some ''ava''
   \<and> role (avaUser\<lparr>password := None, uid := 0\<rparr>) = RoleUser
   \<and> password (avaUser\<lparr>password := None, uid := 0\<rparr>) = None
   \<and> (\<exists>h. users (snd (register demoLibs avaBody emptyWorld)) = users emptyWorld @ [avaUser\<lparr>uid := 0, password := Some h\<rparr>])
   \<and> (\<exists>tk v. fst (register demoLibs avaBody emptyWorld) = json 200 (AuthJson tk v)
          \<and> username v = Some ''ava'' \<and> password v = None)"
proof -
  have run: "body (fst (register demoLibs avaBody emptyWorld)) = AuthJson ''jwt'' (avaUser\<lparr>password := None, uid := 0\<rparr>)"
    by (simp add: register_def avaBody_def eval_simps)
  have nou: "falsy (b_username avaBody)" by (simp add: avaBody_def falsy_def)
  have pre: "faults emptyWorld = [] \<and> (\<forall>x \<in> set (users emptyWorld). email x \<noteq> ''ava@x.com'' \<and> username x \<noteq> Some ''ava'')"
    by (simp add: emptyWorld_def)
  from register_default_username [of avaBody demoLibs emptyWorld "''jwt''" "avaUser\<lparr>password := None, uid := 0\<rparr>"] run nou pre
  show ?thesis by (auto simp: avaBody_def)
qed

section \<open>googleLogin and registerWithGoogle, when the store does not raise\<close>


lemma assertionEmail_cases:
  assumes "assertionEmail L t = Some e"
  obtains (primary) p where "verifyIdToken L GOOGLE_CLIENT_ID t None = Some (Some p)" "g_email p = Some e" "e \<noteq> []"
  | (fallback) h m sg d where "verifyIdToken L GOOGLE_CLIENT_ID t None = None"
      "splitOn (CHR ''.'') t = [h, m, sg]" "decodeJson L m = Some (Some d)" "g_email d = Some e" "e \<noteq> []"
proof (cases "verifyIdToken L GOOGLE_CLIENT_ID t None")
  case None
  with assms have len: "length (splitOn (CHR ''.'') t) = 3"
    by (auto simp: assertionEmail_def Let_def split: if_splits)
  then obtain h m sg where sp: "splitOn (CHR ''.'') t = [h, m, sg]"
    by (auto simp: length_Suc_conv numeral_3_eq_3)
  with assms None obtain d where "decodeJson L m = Some (Some d)" "g_email d = Some e" "e \<noteq> []"
    by (auto simp: assertionEmail_def Let_def lacksEmail_def falsy_def split: if_splits option.splits)
  with None sp show ?thesis by (rule fallback)
next
  case (Some q)
  with assms obtain p where "q = Some p" "g_email p = Some e" "e \<noteq> []"
    by (auto simp: assertionEmail_def lacksEmail_def falsy_def split: if_splits option.splits)
  with Some show ?thesis by (auto intro: primary)
qed



lemma registerWithGoogle_existing:
  assumes "assertionEmail L t = Some e" and "t \<noteq> []" and "faults s = []"
    and "\<exists>x \<in> set (users s). email x = e"
  shows "fst (registerWithGoogle L (Some t) s) = json 400 (ErrorJson ''User with this email already exists'')
         \<and> users (snd (registerWithGoogle L (Some t) s)) = users s"
proof -
  from assms(4) have nf: "find (\<lambda>u. email u = e) (users s) \<noteq> None"
    by (simp add: find_None_iff_set)
  from assms(1) show ?thesis
  proof (cases rule: assertionEmail_cases)
    case (primary p)
    with assms(2-3) nf show ?thesis
      by (auto simp: registerWithGoogle_def registerWithGooglePrimary_def run_simps getUserByEmail_nofault
          falsy_def lacksEmail_def Let_def)
  next
    case (fallback h m sg d)
    with assms(2-3) nf show ?thesis
      by (auto simp: registerWithGoogle_def registerWithGooglePrimary_def registerWithGoogleFallback_def run_simps
          getUserByEmail_nofault falsy_def lacksEmail_def Let_def logged_def)
  qed
qed

lemma registerWithGoogle_creates:
  assumes "assertionEmail L t = Some e" and "t \<noteq> []" and "faults s = []"
    and "\<forall>x \<in> set (users s). email x \<noteq> e \<and> username x \<noteq> Some (takeWhile (\<lambda>c. c \<noteq> CHR ''@'') e)"
  shows "\<exists>tk u. registerWithGoogle L (Some t) s = (json 200 (AuthJson tk (u\<lparr>password := None\<rparr>)), snd (registerWithGoogle L (Some t) s))
         \<and> users (snd (registerWithGoogle L (Some t) s)) = users s @ [u] \<and> email u = e
         \<and> faults (snd (registerWithGoogle L (Some t) s)) = []"
proof -
  from assms(4) have nf: "find (\<lambda>u. email u = e) (users s) = None"
    by (simp add: find_None_iff_set)
  from assms(1) show ?thesis
  proof (cases rule: assertionEmail_cases)
    case (primary p)
    with assms(2-4) nf show ?thesis
      by (simp add: registerWithGoogle_def registerWithGooglePrimary_def run_simps getUserByEmail_nofault
          createUser_nofault hd_splitOn falsy_def lacksEmail_def Let_def stored_def json_def)
  next
    case (fallback h m sg d)
    with assms(2-4) nf show ?thesis
      by (simp add: registerWithGoogle_def registerWithGooglePrimary_def registerWithGoogleFallback_def run_simps
          getUserByEmail_nofault createUser_nofault hd_splitOn falsy_def lacksEmail_def Let_def
          logged_def stored_def json_def)
  qed
qed

lemmas colliding_defs = collidingLibs_def avaOtherPayload_def




text \<open>
  C8, as stated, fails. On the second instance no record has the email \<^verbatim>\<open>ava@y.com\<close> and
  the store schedules no failure, but the derived username \<^verbatim>\<open>ava\<close> is taken: the first
  \<open>registerWithGoogle\<close> call does not succeed, and the second answers the same 400
  \<^verbatim>\<open>Unable to process Google token\<close>, not the duplicate-email refusal.
\<close>

theorem registerWithGoogle_username_taken:
  "assertionEmail collidingLibs ''hdr.avay.sig'' = Some ''ava@y.com''
   \<and> faults demoWorld = []
   \<and> find (\<lambda>u. email u = ''ava@y.com'') (users demoWorld) = None
   \<and> fst (registerWithGoogle collidingLibs (Some ''hdr.avay.sig'') demoWorld)
       = json 400 (ErrorJson ''Unable to process Google token'')
   \<and> users (snd (registerWithGoogle collidingLibs (Some ''hdr.avay.sig'') demoWorld)) = users demoWorld
   \<and> faults (snd (registerWithGoogle collidingLibs (Some ''hdr.avay.sig'') demoWorld)) = []
   \<and> fst (registerWithGoogle collidingLibs (Some ''hdr.avay.sig'')
            (snd (registerWithGoogle collidingLibs (Some ''hdr.avay.sig'') demoWorld)))
       = json 400 (ErrorJson ''Unable to process Google token'')"
  by (simp add: assertionEmail_def registerWithGoogle_def registerWithGooglePrimary_def
      registerWithGoogleFallback_def colliding_defs eval_simps)

text \<open>
  C8, amended. For \<open>registerWithGoogle\<close> when the store schedules no failure: if a record
  with the email the assertion resolves to exists, the response is 400
  \<^verbatim>\<open>User with this email already exists\<close> and the stored users are unchanged; if none exists
  and the username derived from the email is not taken, the first call answers 200 and
  appends the new record, and a second call with an assertion resolving to the same email
  answers 400 \<^verbatim>\<open>User with this email already exists\<close> and changes nothing.
\<close>

theorem registerWithGoogle_duplicate:
  assumes "t1 \<noteq> []" and "t2 \<noteq> []"
    and "assertionEmail L t1 = Some e" and "assertionEmail L t2 = Some e"
    and "faults s = []"
  shows "((\<exists>x \<in> set (users s). email x = e) \<longrightarrow>
            fst (registerWithGoogle L (Some t1) s) = json 400 (ErrorJson ''User with this email already exists'')
          \<and> users (snd (registerWithGoogle L (Some t1) s)) = users s)
       \<and> ((\<forall>x \<in> set (users s). email x \<noteq> e \<and> username x \<noteq> Some (takeWhile (\<lambda>c. c \<noteq> CHR ''@'') e)) \<longrightarrow>
            (\<exists>tk u s1.
                registerWithGoogle L (Some t1) s = (json 200 (AuthJson tk (u\<lparr>password := None\<rparr>)), s1)
              \<and> users s1 = users s @ [u] \<and> email u = e
              \<and> fst (registerWithGoogle L (Some t2) s1) = json 400 (ErrorJson ''User with this email already exists'')
              \<and> users (snd (registerWithGoogle L (Some t2) s1)) = users s1))"
proof (rule conjI; rule impI)
  assume "\<exists>x \<in> set (users s). email x = e"
  from registerWithGoogle_existing [OF assms(3) assms(1) assms(5) this]
  show "fst (registerWithGoogle L (Some t1) s) = json 400 (ErrorJson ''User with this email already exists'')
          \<and> users (snd (registerWithGoogle L (Some t1) s)) = users s" .
next
  assume free: "\<forall>x \<in> set (users s). email x \<noteq> e \<and> username x \<noteq> Some (takeWhile (\<lambda>c. c \<noteq> CHR ''@'') e)"
  let ?s1 = "snd (registerWithGoogle L (Some t1) s)"
  from registerWithGoogle_creates [OF assms(3) assms(1) assms(5) free]
  obtain tk u where first: "registerWithGoogle L (Some t1) s = (json 200 (AuthJson tk (u\<lparr>password := None\<rparr>)), ?s1)"
    and us1: "users ?s1 = users s @ [u]" and eu: "email u = e" and nf1: "faults ?s1 = []" by blast
  from us1 eu have "\<exists>x \<in> set (users ?s1). email x = e" by simp
  from registerWithGoogle_existing [OF assms(4) assms(2) nf1 this]
  have second: "fst (registerWithGoogle L (Some t2) ?s1) = json 400 (ErrorJson ''User with this email already exists'')
          \<and> users (snd (registerWithGoogle L (Some t2) ?s1)) = users ?s1" .
  from first us1 eu second
  show "\<exists>tk u s1.
                registerWithGoogle L (Some t1) s = (json 200 (AuthJson tk (u\<lparr>password := None\<rparr>)), s1)
              \<and> users s1 = users s @ [u] \<and> email u = e
              \<and> fst (registerWithGoogle L (Some t2) s1) = json 400 (ErrorJson ''User with this email already exists'')
              \<and> users (snd (registerWithGoogle L (Some t2) s1)) = users s1"
    by blast
qed

theorem registerWithGoogle_duplicate_witness:
  "fst (registerWithGoogle demoLibs (Some ''hdr.ava.sig'') demoWorld)
     = json 400 (ErrorJson ''User with this email already exists'')
   \<and> users (snd (registerWithGoogle demoLibs (Some ''hdr.ava.sig'') demoWorld)) = users demoWorld
   \<and> (\<exists>tk u s1.
          registerWithGoogle demoLibs (Some ''hdr.ava.sig'') emptyWorld = (json 200 (AuthJson tk (u\<lparr>password := None\<rparr>)), s1)
        \<and> users s1 = users emptyWorld @ [u] \<and> email u = ''ava@x.com''
        \<and> fst (registerWithGoogle demoLibs (Some ''x.ava.y'') s1) = json 400 (ErrorJson ''User with this email already exists'')
        \<and> users (snd (registerWithGoogle demoLibs (Some ''x.ava.y'') s1)) = users s1)"
proof -
  have a: "assertionEmail demoLibs ''hdr.ava.sig'' = Some ''ava@x.com''"
    by (simp add: assertionEmail_def demo_defs lacksEmail_def falsy_def)
  have b: "assertionEmail demoLibs ''x.ava.y'' = Some ''ava@x.com''"
    by (simp add: assertionEmail_def demo_defs lacksEmail_def falsy_def)
  have d: "faults demoWorld = []" "faults emptyWorld = []" by (simp_all add: demo_defs)
  have ex: "\<exists>x \<in> set (users demoWorld). email x = ''ava@x.com''" by (simp add: demo_defs)
  have free: "\<forall>x \<in> set (users emptyWorld). email x \<noteq> ''ava@x.com''
      \<and> username x \<noteq> Some (takeWhile (\<lambda>c. c \<noteq> CHR ''@'') ''ava@x.com'')" by (simp add: demo_defs)
  from registerWithGoogle_duplicate [OF _ _ a b d(1)] ex
  have one: "fst (registerWithGoogle demoLibs (Some ''hdr.ava.sig'') demoWorld)
     = json 400 (ErrorJson ''User with this email already exists'')
   \<and> users (snd (registerWithGoogle demoLibs (Some ''hdr.ava.sig'') demoWorld)) = users demoWorld"
    by simp
  from registerWithGoogle_duplicate [OF _ _ a b d(2)] free
  have two: "\<exists>tk u s1.
          registerWithGoogle demoLibs (Some ''hdr.ava.sig'') emptyWorld = (json 200 (AuthJson tk (u\<lparr>password := None\<rparr>)), s1)
        \<and> users s1 = users emptyWorld @ [u] \<and> email u = ''ava@x.com''
        \<and> fst (registerWithGoogle demoLibs (Some ''x.ava.y'') s1) = json 400 (ErrorJson ''User with this email already exists'')
        \<and> users (snd (registerWithGoogle demoLibs (Some ''x.ava.y'') s1)) = users s1"
    by simp
  from one two show ?thesis by (intro conjI) simp_all
qed

section \<open>The fallback path\<close>

lemma guarded_returns:
  "\<exists>r s2. bnd (consoleError a) (\<lambda>_. tryCatch M (\<lambda>e. bnd (consoleError b) (\<lambda>_. ret c))) s = (Inr r, s2)"
proof -
  obtain x s1 where run: "M (logged a s) = (x, s1)" by (cases "M (logged a s)")
  then show ?thesis by (cases x) (simp_all add: run_simps)
qed

lemma googleLoginFallback_returns: "\<exists>r s2. googleLoginFallback L t s = (Inr r, s2)"
  unfolding googleLoginFallback_def by (rule guarded_returns)

lemma registerWithGoogleFallback_returns: "\<exists>r s2. registerWithGoogleFallback L t s = (Inr r, s2)"
  unfolding registerWithGoogleFallback_def by (rule guarded_returns)

lemma googleLogin_falls_back:
  assumes "t \<noteq> []" and "fst (googleLoginPrimary L t s) = Inl err"
  shows "\<exists>r s2. googleLoginFallback L t (snd (googleLoginPrimary L t s)) = (Inr r, s2)
               \<and> googleLogin L (Some t) s = (r, s2)"
proof -
  obtain s1 where p: "googleLoginPrimary L t s = (Inl err, s1)"
    using assms(2) by (cases "googleLoginPrimary L t s") simp
  obtain r s2 where f: "googleLoginFallback L t s1 = (Inr r, s2)"
    using googleLoginFallback_returns by blast
  with assms(1) p have "googleLogin L (Some t) s = (r, s2)"
    by (simp add: googleLogin_def run_simps falsy_def)
  with p f show ?thesis by simp
qed

lemma registerWithGoogle_falls_back:
  assumes "t \<noteq> []" and "fst (registerWithGooglePrimary L t s) = Inl err"
  shows "\<exists>r s2. registerWithGoogleFallback L t (snd (registerWithGooglePrimary L t s)) = (Inr r, s2)
               \<and> registerWithGoogle L (Some t) s = (r, s2)"
proof -
  obtain s1 where p: "registerWithGooglePrimary L t s = (Inl err, s1)"
    using assms(2) by (cases "registerWithGooglePrimary L t s") simp
  obtain r s2 where f: "registerWithGoogleFallback L t s1 = (Inr r, s2)"
    using registerWithGoogleFallback_returns by blast
  with assms(1) p have "registerWithGoogle L (Some t) s = (r, s2)"
    by (simp add: registerWithGoogle_def run_simps falsy_def)
  with p f show ?thesis by simp
qed

lemma googleLoginFallback_format:
  "length (splitOn (CHR ''.'') t) \<noteq> 3 \<Longrightarrow>
   fst (googleLoginFallback L t s) = Inr (json 400 (ErrorJson ''Invalid token format''))"
  by (simp add: googleLoginFallback_def run_simps)

lemma googleLoginFallback_content:
  "length (splitOn (CHR ''.'') t) = 3 \<Longrightarrow> decodeJson L (splitOn (CHR ''.'') t ! 1) = Some d \<Longrightarrow> lacksEmail d \<Longrightarrow>
   fst (googleLoginFallback L t s) = Inr (json 400 (ErrorJson ''Invalid token content''))"
  by (simp add: googleLoginFallback_def run_simps)

lemma registerWithGoogleFallback_format:
  "length (splitOn (CHR ''.'') t) \<noteq> 3 \<Longrightarrow>
   fst (registerWithGoogleFallback L t s) = Inr (json 400 (ErrorJson ''Invalid token format''))"
  by (simp add: registerWithGoogleFallback_def run_simps)

lemma registerWithGoogleFallback_content:
  "length (splitOn (CHR ''.'') t) = 3 \<Longrightarrow> decodeJson L (splitOn (CHR ''.'') t ! 1) = Some d \<Longrightarrow> lacksEmail d \<Longrightarrow>
   fst (registerWithGoogleFallback L t s) = Inr (json 400 (ErrorJson ''Invalid token content''))"
  by (simp add: registerWithGoogleFallback_def run_simps)

lemma fallback_ignores_verifier:
  "googleLoginFallback (L\<lparr>verifyIdToken := v\<rparr>) t = googleLoginFallback L t
   \<and> registerWithGoogleFallback (L\<lparr>verifyIdToken := v\<rparr>) t = registerWithGoogleFallback L t"
  by (simp add: googleLoginFallback_def registerWithGoogleFallback_def Let_def cong: if_cong option.case_cong)

lemma fallback_ignores_signature:
  "splitOn (CHR ''.'') t = [h, m, sg] \<Longrightarrow> splitOn (CHR ''.'') t' = [h', m, sg'] \<Longrightarrow>
   googleLoginFallback L t' = googleLoginFallback L t
   \<and> registerWithGoogleFallback L t' = registerWithGoogleFallback L t"
  by (simp add: googleLoginFallback_def registerWithGoogleFallback_def)

lemma googleLogin_is_fallback:
  assumes "t \<noteq> []" and "fst (googleLoginPrimary L t s) = Inl err"
  shows "fst (googleLoginFallback L t (snd (googleLoginPrimary L t s))) = Inr (fst (googleLogin L (Some t) s))
       \<and> snd (googleLoginFallback L t (snd (googleLoginPrimary L t s))) = snd (googleLogin L (Some t) s)"
  using googleLogin_falls_back [OF assms] by auto

lemma registerWithGoogle_is_fallback:
  assumes "t \<noteq> []" and "fst (registerWithGooglePrimary L t s) = Inl err"
  shows "fst (registerWithGoogleFallback L t (snd (registerWithGooglePrimary L t s)))
           = Inr (fst (registerWithGoogle L (Some t) s))
       \<and> snd (registerWithGoogleFallback L t (snd (registerWithGooglePrimary L t s)))
           = snd (registerWithGoogle L (Some t) s)"
  using registerWithGoogle_falls_back [OF assms] by auto

lemma fallback_unparsable:
  assumes "splitOn (CHR ''.'') t = [h, m, sg]" and "decodeJson L m = None"
  shows "fst (googleLoginFallback L t s) = Inr (json 400 (ErrorJson ''Unable to process Google token''))
       \<and> fst (registerWithGoogleFallback L t s) = Inr (json 400 (ErrorJson ''Unable to process Google token''))"
  using assms by (simp add: googleLoginFallback_def registerWithGoogleFallback_def run_simps)

lemma fallback_existing:
  assumes "splitOn (CHR ''.'') t = [h, m, sg]" and "decodeJson L m = Some (Some d)"
    and "g_email d = Some e" and "e \<noteq> []" and "faults s = []"
    and "find (\<lambda>u. email u = e) (users s) = Some u"
  shows "fst (googleLoginFallback L t s)
           = Inr (json 200 (AuthJson (jwt_sign L \<lparr>c_id = uid u, c_name = name u, c_email = email u\<rparr>)
                              (u\<lparr>password := None\<rparr>)))
       \<and> users (snd (googleLoginFallback L t s)) = users s
       \<and> fst (registerWithGoogleFallback L t s)
           = Inr (json 400 (ErrorJson ''User with this email already exists''))
       \<and> users (snd (registerWithGoogleFallback L t s)) = users s"
  using assms
  by (simp add: googleLoginFallback_def registerWithGoogleFallback_def run_simps getUserByEmail_nofault
      falsy_def lacksEmail_def Let_def logged_def)

lemma fallback_creates:
  assumes "splitOn (CHR ''.'') t = [h, m, sg]" and "decodeJson L m = Some (Some d)"
    and "g_email d = Some e" and "e \<noteq> []" and "faults s = []"
    and "\<forall>x \<in> set (users s). email x \<noteq> e \<and> username x \<noteq> Some (takeWhile (\<lambda>c. c \<noteq> CHR ''@'') e)"
  shows "(\<exists>tk u. fst (googleLoginFallback L t s) = Inr (json 200 (AuthJson tk (u\<lparr>password := None\<rparr>)))
            \<and> users (snd (googleLoginFallback L t s)) = users s @ [u] \<and> email u = e)
       \<and> (\<exists>tk u. fst (registerWithGoogleFallback L t s) = Inr (json 200 (AuthJson tk (u\<lparr>password := None\<rparr>)))
            \<and> users (snd (registerWithGoogleFallback L t s)) = users s @ [u] \<and> email u = e)"
proof -
  from assms(6) have nf: "find (\<lambda>u. email u = e) (users s) = None"
    by (simp add: find_None_iff_set)
  with assms show ?thesis
    by (simp add: googleLoginFallback_def registerWithGoogleFallback_def run_simps getUserByEmail_nofault
        createUser_nofault hd_splitOn falsy_def lacksEmail_def Let_def logged_def stored_def json_def)
qed

text \<open>
  C6. For a token that is present: whenever the primary path of \<open>googleLogin\<close> or
  \<open>registerWithGoogle\<close> raises any error, the handler's response is the one the fallback
  computes from the world the primary path left. The fallback splits the token on \<^verbatim>\<open>.\<close>;
  with a segment count other than 3 the response is 400 \<^verbatim>\<open>Invalid token format\<close>. With three
  segments it decodes the middle one: if the decoding raises, the response is 400
  \<^verbatim>\<open>Unable to process Google token\<close>; if the decoded value has no email, the response is 400
  \<^verbatim>\<open>Invalid token content\<close>; if it has an email, the handler acts on it with no further check:
  with a working store \<open>googleLogin\<close> answers 200 and a token for the stored record with that
  email, or creates one, and \<open>registerWithGoogle\<close> answers 400
  \<^verbatim>\<open>User with this email already exists\<close>, or creates one. The fallback performs no
  verification: it is the same program whatever the verifier is, and the same program for
  any two tokens with the same middle segment, so the header and the signature segment are
  never read.
\<close>

theorem fallback_on_primary_error:
  assumes "t \<noteq> []"
  shows "(fst (googleLoginPrimary L t s) = Inl err \<longrightarrow>
            (\<exists>r s2. googleLoginFallback L t (snd (googleLoginPrimary L t s)) = (Inr r, s2)
                   \<and> googleLogin L (Some t) s = (r, s2))
          \<and> (length (splitOn (CHR ''.'') t) \<noteq> 3 \<longrightarrow>
               fst (googleLogin L (Some t) s) = json 400 (ErrorJson ''Invalid token format''))
          \<and> (\<forall>d. length (splitOn (CHR ''.'') t) = 3 \<and> decodeJson L (splitOn (CHR ''.'') t ! 1) = Some d
                  \<and> lacksEmail d \<longrightarrow>
               fst (googleLogin L (Some t) s) = json 400 (ErrorJson ''Invalid token content''))
          \<and> (\<forall>h m sg. splitOn (CHR ''.'') t = [h, m, sg] \<and> decodeJson L m = None \<longrightarrow>
               fst (googleLogin L (Some t) s) = json 400 (ErrorJson ''Unable to process Google token''))
          \<and> (\<forall>h m sg d e u. splitOn (CHR ''.'') t = [h, m, sg] \<and> decodeJson L m = Some (Some d)
                  \<and> g_email d = Some e \<and> e \<noteq> [] \<and> faults (snd (googleLoginPrimary L t s)) = []
                  \<and> find (\<lambda>u. email u = e) (users (snd (googleLoginPrimary L t s))) = Some u \<longrightarrow>
               fst (googleLogin L (Some t) s)
                 = json 200 (AuthJson (jwt_sign L \<lparr>c_id = uid u, c_name = name u, c_email = email u\<rparr>)
                               (u\<lparr>password := None\<rparr>))
               \<and> users (snd (googleLogin L (Some t) s)) = users (snd (googleLoginPrimary L t s)))
          \<and> (\<forall>h m sg d e. splitOn (CHR ''.'') t = [h, m, sg] \<and> decodeJson L m = Some (Some d)
                  \<and> g_email d = Some e \<and> e \<noteq> [] \<and> faults (snd (googleLoginPrimary L t s)) = []
                  \<and> (\<forall>x \<in> set (users (snd (googleLoginPrimary L t s))).
                        email x \<noteq> e \<and> username x \<noteq> Some (takeWhile (\<lambda>c. c \<noteq> CHR ''@'') e)) \<longrightarrow>
               (\<exists>tk u. fst (googleLogin L (Some t) s) = json 200 (AuthJson tk (u\<lparr>password := None\<rparr>))
                   \<and> users (snd (googleLogin L (Some t) s)) = users (snd (googleLoginPrimary L t s)) @ [u]
                   \<and> email u = e)))
       \<and> (fst (registerWithGooglePrimary L t s) = Inl err \<longrightarrow>
            (\<exists>r s2. registerWithGoogleFallback L t (snd (registerWithGooglePrimary L t s)) = (Inr r, s2)
                   \<and> registerWithGoogle L (Some t) s = (r, s2))
          \<and> (length (splitOn (CHR ''.'') t) \<noteq> 3 \<longrightarrow>
               fst (registerWithGoogle L (Some t) s) = json 400 (ErrorJson ''Invalid token format''))
          \<and> (\<forall>d. length (splitOn (CHR ''.'') t) = 3 \<and> decodeJson L (splitOn (CHR ''.'') t ! 1) = Some d
                  \<and> lacksEmail d \<longrightarrow>
               fst (registerWithGoogle L (Some t) s) = json 400 (ErrorJson ''Invalid token content''))
          \<and> (\<forall>h m sg. splitOn (CHR ''.'') t = [h, m, sg] \<and> decodeJson L m = None \<longrightarrow>
               fst (registerWithGoogle L (Some t) s) = json 400 (ErrorJson ''Unable to process Google token''))
          \<and> (\<forall>h m sg d e u. splitOn (CHR ''.'') t = [h, m, sg] \<and> decodeJson L m = Some (Some d)
                  \<and> g_email d = Some e \<and> e \<noteq> [] \<and> faults (snd (registerWithGooglePrimary L t s)) = []
                  \<and> find (\<lambda>u. email u = e) (users (snd (registerWithGooglePrimary L t s))) = Some u \<longrightarrow>
               fst (registerWithGoogle L (Some t) s) = json 400 (ErrorJson ''User with this email already exists'')
               \<and> users (snd (registerWithGoogle L (Some t) s)) = users (snd (registerWithGooglePrimary L t s)))
          \<and> (\<forall>h m sg d e. splitOn (CHR ''.'') t = [h, m, sg] \<and> decodeJson L m = Some (Some d)
                  \<and> g_email d = Some e \<and> e \<noteq> [] \<and> faults (snd (registerWithGooglePrimary L t s)) = []
                  \<and> (\<forall>x \<in> set (users (snd (registerWithGooglePrimary L t s))).
                        email x \<noteq> e \<and> username x \<noteq> Some (takeWhile (\<lambda>c. c \<noteq> CHR ''@'') e)) \<longrightarrow>
               (\<exists>tk u. fst (registerWithGoogle L (Some t) s) = json 200 (AuthJson tk (u\<lparr>password := None\<rparr>))
                   \<and> users (snd (registerWithGoogle L (Some t) s)) = users (snd (registerWithGooglePrimary L t s)) @ [u]
                   \<and> email u = e)))
       \<and> (\<forall>v. googleLoginFallback (L\<lparr>verifyIdToken := v\<rparr>) t = googleLoginFallback L t
              \<and> registerWithGoogleFallback (L\<lparr>verifyIdToken := v\<rparr>) t = registerWithGoogleFallback L t)
       \<and> (\<forall>t' h m sg h' sg'. splitOn (CHR ''.'') t = [h, m, sg] \<and> splitOn (CHR ''.'') t' = [h', m, sg'] \<longrightarrow>
              googleLoginFallback L t' = googleLoginFallback L t
              \<and> registerWithGoogleFallback L t' = registerWithGoogleFallback L t)"
proof (intro conjI impI allI)
  assume p: "fst (googleLoginPrimary L t s) = Inl err"
  from googleLogin_falls_back [OF assms p]
  show "\<exists>r s2. googleLoginFallback L t (snd (googleLoginPrimary L t s)) = (Inr r, s2)
                   \<and> googleLogin L (Some t) s = (r, s2)" .
next
  assume p: "fst (googleLoginPrimary L t s) = Inl err"
    and len: "length (splitOn (CHR ''.'') t) \<noteq> 3"
  from googleLogin_is_fallback [OF assms p]
    googleLoginFallback_format [OF len, where L = L and s = "snd (googleLoginPrimary L t s)"]
  show "fst (googleLogin L (Some t) s) = json 400 (ErrorJson ''Invalid token format'')" by simp
next
  fix d
  assume p: "fst (googleLoginPrimary L t s) = Inl err"
    and c: "length (splitOn (CHR ''.'') t) = 3 \<and> decodeJson L (splitOn (CHR ''.'') t ! 1) = Some d \<and> lacksEmail d"
  from c googleLogin_is_fallback [OF assms p]
    googleLoginFallback_content [where t = t and L = L and d = d and s = "snd (googleLoginPrimary L t s)"]
  show "fst (googleLogin L (Some t) s) = json 400 (ErrorJson ''Invalid token content'')" by simp
next
  fix h m sg
  assume p: "fst (googleLoginPrimary L t s) = Inl err"
    and c: "splitOn (CHR ''.'') t = [h, m, sg] \<and> decodeJson L m = None"
  from c googleLogin_is_fallback [OF assms p]
    fallback_unparsable [where t = t and L = L and h = h and m = m and sg = sg and s = "snd (googleLoginPrimary L t s)"]
  show "fst (googleLogin L (Some t) s) = json 400 (ErrorJson ''Unable to process Google token'')" by simp
next
  fix h m sg d e u
  assume p: "fst (googleLoginPrimary L t s) = Inl err"
    and c: "splitOn (CHR ''.'') t = [h, m, sg] \<and> decodeJson L m = Some (Some d)
                  \<and> g_email d = Some e \<and> e \<noteq> [] \<and> faults (snd (googleLoginPrimary L t s)) = []
                  \<and> find (\<lambda>u. email u = e) (users (snd (googleLoginPrimary L t s))) = Some u"
  from c googleLogin_is_fallback [OF assms p]
    fallback_existing [where t = t and L = L and h = h and m = m and sg = sg and d = d and e = e and u = u
      and s = "snd (googleLoginPrimary L t s)"]
  show "fst (googleLogin L (Some t) s)
                 = json 200 (AuthJson (jwt_sign L \<lparr>c_id = uid u, c_name = name u, c_email = email u\<rparr>)
                               (u\<lparr>password := None\<rparr>))"
    and "users (snd (googleLogin L (Some t) s)) = users (snd (googleLoginPrimary L t s))" by simp_all
next
  fix h m sg d e
  assume p: "fst (googleLoginPrimary L t s) = Inl err"
    and c: "splitOn (CHR ''.'') t = [h, m, sg] \<and> decodeJson L m = Some (Some d)
                  \<and> g_email d = Some e \<and> e \<noteq> [] \<and> faults (snd (googleLoginPrimary L t s)) = []
                  \<and> (\<forall>x \<in> set (users (snd (googleLoginPrimary L t s))).
                        email x \<noteq> e \<and> username x \<noteq> Some (takeWhile (\<lambda>c. c \<noteq> CHR ''@'') e))"
  from c googleLogin_is_fallback [OF assms p]
    fallback_creates [where t = t and L = L and h = h and m = m and sg = sg and d = d and e = e
      and s = "snd (googleLoginPrimary L t s)"]
  show "\<exists>tk u. fst (googleLogin L (Some t) s) = json 200 (AuthJson tk (u\<lparr>password := None\<rparr>))
                   \<and> users (snd (googleLogin L (Some t) s)) = users (snd (googleLoginPrimary L t s)) @ [u]
                   \<and> email u = e" by simp
next
  assume p: "fst (registerWithGooglePrimary L t s) = Inl err"
  from registerWithGoogle_falls_back [OF assms p]
  show "\<exists>r s2. registerWithGoogleFallback L t (snd (registerWithGooglePrimary L t s)) = (Inr r, s2)
                   \<and> registerWithGoogle L (Some t) s = (r, s2)" .
next
  assume p: "fst (registerWithGooglePrimary L t s) = Inl err"
    and len: "length (splitOn (CHR ''.'') t) \<noteq> 3"
  from registerWithGoogle_is_fallback [OF assms p]
    registerWithGoogleFallback_format [OF len, where L = L and s = "snd (registerWithGooglePrimary L t s)"]
  show "fst (registerWithGoogle L (Some t) s) = json 400 (ErrorJson ''Invalid token format'')" by simp
next
  fix d
  assume p: "fst (registerWithGooglePrimary L t s) = Inl err"
    and c: "length (splitOn (CHR ''.'') t) = 3 \<and> decodeJson L (splitOn (CHR ''.'') t ! 1) = Some d \<and> lacksEmail d"
  from c registerWithGoogle_is_fallback [OF assms p]
    registerWithGoogleFallback_content [where t = t and L = L and d = d and s = "snd (registerWithGooglePrimary L t s)"]
  show "fst (registerWithGoogle L (Some t) s) = json 400 (ErrorJson ''Invalid token content'')" by simp
next
  fix h m sg
  assume p: "fst (registerWithGooglePrimary L t s) = Inl err"
    and c: "splitOn (CHR ''.'') t = [h, m, sg] \<and> decodeJson L m = None"
  from c registerWithGoogle_is_fallback [OF assms p]
    fallback_unparsable [where t = t and L = L and h = h and m = m and sg = sg
      and s = "snd (registerWithGooglePrimary L t s)"]
  show "fst (registerWithGoogle L (Some t) s) = json 400 (ErrorJson ''Unable to process Google token'')" by simp
next
  fix h m sg d e u
  assume p: "fst (registerWithGooglePrimary L t s) = Inl err"
    and c: "splitOn (CHR ''.'') t = [h, m, sg] \<and> decodeJson L m = Some (Some d)
                  \<and> g_email d = Some e \<and> e \<noteq> [] \<and> faults (snd (registerWithGooglePrimary L t s)) = []
                  \<and> find (\<lambda>u. email u = e) (users (snd (registerWithGooglePrimary L t s))) = Some u"
  from c registerWithGoogle_is_fallback [OF assms p]
    fallback_existing [where t = t and L = L and h = h and m = m and sg = sg and d = d and e = e and u = u
      and s = "snd (registerWithGooglePrimary L t s)"]
  show "fst (registerWithGoogle L (Some t) s) = json 400 (ErrorJson ''User with this email already exists'')"
    and "users (snd (registerWithGoogle L (Some t) s)) = users (snd (registerWithGooglePrimary L t s))"
    by simp_all
next
  fix h m sg d e
  assume p: "fst (registerWithGooglePrimary L t s) = Inl err"
    and c: "splitOn (CHR ''.'') t = [h, m, sg] \<and> decodeJson L m = Some (Some d)
                  \<and> g_email d = Some e \<and> e \<noteq> [] \<and> faults (snd (registerWithGooglePrimary L t s)) = []
                  \<and> (\<forall>x \<in> set (users (snd (registerWithGooglePrimary L t s))).
                        email x \<noteq> e \<and> username x \<noteq> Some (takeWhile (\<lambda>c. c \<noteq> CHR ''@'') e))"
  from c registerWithGoogle_is_fallback [OF assms p]
    fallback_creates [where t = t and L = L and h = h and m = m and sg = sg and d = d and e = e
      and s = "snd (registerWithGooglePrimary L t s)"]
  show "\<exists>tk u. fst (registerWithGoogle L (Some t) s) = json 200 (AuthJson tk (u\<lparr>password := None\<rparr>))
                   \<and> users (snd (registerWithGoogle L (Some t) s)) = users (snd (registerWithGooglePrimary L t s)) @ [u]
                   \<and> email u = e" by simp
next
  fix v
  from fallback_ignores_verifier [where L = L and v = v and t = t]
  show "googleLoginFallback (L\<lparr>verifyIdToken := v\<rparr>) t = googleLoginFallback L t" by simp
next
  fix v
  from fallback_ignores_verifier [where L = L and v = v and t = t]
  show "registerWithGoogleFallback (L\<lparr>verifyIdToken := v\<rparr>) t = registerWithGoogleFallback L t" by simp
next
  fix t' h m sg h' sg'
  assume "splitOn (CHR ''.'') t = [h, m, sg] \<and> splitOn (CHR ''.'') t' = [h', m, sg']"
  with fallback_ignores_signature [where t = t and h = h and m = m and sg = sg and t' = t' and h' = h' and sg' = sg' and L = L]
  show "googleLoginFallback L t' = googleLoginFallback L t" by simp
next
  fix t' h m sg h' sg'
  assume "splitOn (CHR ''.'') t = [h, m, sg] \<and> splitOn (CHR ''.'') t' = [h', m, sg']"
  with fallback_ignores_signature [where t = t and h = h and m = m and sg = sg and t' = t' and h' = h' and sg' = sg' and L = L]
  show "registerWithGoogleFallback L t' = registerWithGoogleFallback L t" by simp
qed

theorem fallback_on_primary_error_witness:
  "fst (googleLogin demoLibs (Some ''x.ava'') demoWorld) = json 400 (ErrorJson ''Invalid token format'')
   \<and> fst (registerWithGoogle demoLibs (Some ''x.null.y'') demoWorld) = json 400 (ErrorJson ''Invalid token content'')
   \<and> fst (googleLogin demoLibs (Some ''x.zzz.y'') demoWorld) = json 400 (ErrorJson ''Unable to process Google token'')
   \<and> fst (googleLogin demoLibs (Some ''forged.ava.nosig'') demoWorld)
       = json 200 (AuthJson (jwt_sign demoLibs \<lparr>c_id = uid avaUser, c_name = name avaUser, c_email = email avaUser\<rparr>)
                     (avaUser\<lparr>password := None\<rparr>))
   \<and> fst (registerWithGoogle demoLibs (Some ''forged.ava.nosig'') demoWorld)
       = json 400 (ErrorJson ''User with this email already exists'')
   \<and> (\<exists>tk u. fst (registerWithGoogle demoLibs (Some ''forged.ava.nosig'') emptyWorld)
                 = json 200 (AuthJson tk (u\<lparr>password := None\<rparr>))
          \<and> users (snd (registerWithGoogle demoLibs (Some ''forged.ava.nosig'') emptyWorld))
              = users (snd (registerWithGooglePrimary demoLibs ''forged.ava.nosig'' emptyWorld)) @ [u]
          \<and> email u = ''ava@x.com'')
   \<and> googleLoginFallback demoLibs ''forged.ava.nosig'' = googleLoginFallback demoLibs ''x.ava.y''"
proof -
  have p1: "fst (googleLoginPrimary demoLibs ''x.ava'' demoWorld) = Inl VerifyError"
    by (simp add: googleLoginPrimary_def eval_simps)
  have p2: "fst (registerWithGooglePrimary demoLibs ''x.null.y'' demoWorld) = Inl VerifyError"
    by (simp add: registerWithGooglePrimary_def eval_simps)
  have p3: "fst (googleLoginPrimary demoLibs ''x.zzz.y'' demoWorld) = Inl VerifyError"
    by (simp add: googleLoginPrimary_def eval_simps)
  have p4: "googleLoginPrimary demoLibs ''forged.ava.nosig'' demoWorld = (Inl VerifyError, demoWorld)"
    by (simp add: googleLoginPrimary_def eval_simps)
  have p5: "registerWithGooglePrimary demoLibs ''forged.ava.nosig'' demoWorld = (Inl VerifyError, demoWorld)"
    by (simp add: registerWithGooglePrimary_def eval_simps)
  have p6: "registerWithGooglePrimary demoLibs ''forged.ava.nosig'' emptyWorld = (Inl VerifyError, emptyWorld)"
    by (simp add: registerWithGooglePrimary_def eval_simps)
  have l1: "length (splitOn (CHR ''.'') ''x.ava'') \<noteq> 3" by simp
  have l2: "length (splitOn (CHR ''.'') ''x.null.y'') = 3
      \<and> decodeJson demoLibs (splitOn (CHR ''.'') ''x.null.y'' ! 1) = Some None \<and> lacksEmail None"
    by (simp add: demo_defs lacksEmail_def)
  have l3: "splitOn (CHR ''.'') ''x.zzz.y'' = [''x'', ''zzz'', ''y''] \<and> decodeJson demoLibs ''zzz'' = None"
    by (simp add: demo_defs)
  have l4: "splitOn (CHR ''.'') ''forged.ava.nosig'' = [''forged'', ''ava'', ''nosig'']
      \<and> decodeJson demoLibs ''ava'' = Some (Some avaPayload)
      \<and> g_email avaPayload = Some ''ava@x.com'' \<and> ''ava@x.com'' \<noteq> []
      \<and> faults (snd (googleLoginPrimary demoLibs ''forged.ava.nosig'' demoWorld)) = []
      \<and> find (\<lambda>u. email u = ''ava@x.com'') (users (snd (googleLoginPrimary demoLibs ''forged.ava.nosig'' demoWorld)))
          = Some avaUser"
    unfolding p4 by (simp add: demo_defs)
  have l5: "splitOn (CHR ''.'') ''forged.ava.nosig'' = [''forged'', ''ava'', ''nosig'']
      \<and> decodeJson demoLibs ''ava'' = Some (Some avaPayload)
      \<and> g_email avaPayload = Some ''ava@x.com'' \<and> ''ava@x.com'' \<noteq> []
      \<and> faults (snd (registerWithGooglePrimary demoLibs ''forged.ava.nosig'' demoWorld)) = []
      \<and> find (\<lambda>u. email u = ''ava@x.com'')
            (users (snd (registerWithGooglePrimary demoLibs ''forged.ava.nosig'' demoWorld))) = Some avaUser"
    unfolding p5 by (simp add: demo_defs)
  have l6: "splitOn (CHR ''.'') ''forged.ava.nosig'' = [''forged'', ''ava'', ''nosig'']
      \<and> decodeJson demoLibs ''ava'' = Some (Some avaPayload)
      \<and> g_email avaPayload = Some ''ava@x.com'' \<and> ''ava@x.com'' \<noteq> []
      \<and> faults (snd (registerWithGooglePrimary demoLibs ''forged.ava.nosig'' emptyWorld)) = []
      \<and> (\<forall>x \<in> set (users (snd (registerWithGooglePrimary demoLibs ''forged.ava.nosig'' emptyWorld))).
            email x \<noteq> ''ava@x.com'' \<and> username x \<noteq> Some (takeWhile (\<lambda>c. c \<noteq> CHR ''@'') ''ava@x.com''))"
    unfolding p6 by (simp add: demo_defs)
  have l7: "splitOn (CHR ''.'') ''forged.ava.nosig'' = [''forged'', ''ava'', ''nosig'']
      \<and> splitOn (CHR ''.'') ''x.ava.y'' = [''x'', ''ava'', ''y'']" by simp
  have q4: "fst (googleLoginPrimary demoLibs ''forged.ava.nosig'' demoWorld) = Inl VerifyError"
    and q5: "fst (registerWithGooglePrimary demoLibs ''forged.ava.nosig'' demoWorld) = Inl VerifyError"
    and q6: "fst (registerWithGooglePrimary demoLibs ''forged.ava.nosig'' emptyWorld) = Inl VerifyError"
    by (simp_all add: p4 p5 p6)
  have n1: "''x.ava'' \<noteq> []" and n2: "''x.null.y'' \<noteq> []" and n3: "''x.zzz.y'' \<noteq> []"
    and n4: "''forged.ava.nosig'' \<noteq> []" by simp_all
  note G1 = fallback_on_primary_error [OF n1, where L = demoLibs and s = demoWorld and err = VerifyError,
      THEN conjunct1, rule_format, OF p1]
  note R2 = fallback_on_primary_error [OF n2, where L = demoLibs and s = demoWorld and err = VerifyError,
      THEN conjunct2, THEN conjunct1, rule_format, OF p2]
  note G3 = fallback_on_primary_error [OF n3, where L = demoLibs and s = demoWorld and err = VerifyError,
      THEN conjunct1, rule_format, OF p3]
  note G4 = fallback_on_primary_error [OF n4, where L = demoLibs and s = demoWorld and err = VerifyError,
      THEN conjunct1, rule_format, OF q4]
  note R5 = fallback_on_primary_error [OF n4, where L = demoLibs and s = demoWorld and err = VerifyError,
      THEN conjunct2, THEN conjunct1, rule_format, OF q5]
  note R6 = fallback_on_primary_error [OF n4, where L = demoLibs and s = emptyWorld and err = VerifyError,
      THEN conjunct2, THEN conjunct1, rule_format, OF q6]
  note S7 = fallback_on_primary_error [OF n4, where L = demoLibs and s = demoWorld and err = VerifyError,
      THEN conjunct2, THEN conjunct2, THEN conjunct2, rule_format, OF l7]
  have a: "fst (googleLogin demoLibs (Some ''x.ava'') demoWorld) = json 400 (ErrorJson ''Invalid token format'')"
    by (rule G1 [THEN conjunct2, THEN conjunct1, rule_format, OF l1])
  have b: "fst (registerWithGoogle demoLibs (Some ''x.null.y'') demoWorld) = json 400 (ErrorJson ''Invalid token content'')"
    by (rule R2 [THEN conjunct2, THEN conjunct2, THEN conjunct1, rule_format, OF l2])
  have c: "fst (googleLogin demoLibs (Some ''x.zzz.y'') demoWorld) = json 400 (ErrorJson ''Unable to process Google token'')"
    by (rule G3 [THEN conjunct2, THEN conjunct2, THEN conjunct2, THEN conjunct1, rule_format, OF l3])
  have d: "fst (googleLogin demoLibs (Some ''forged.ava.nosig'') demoWorld)
       = json 200 (AuthJson (jwt_sign demoLibs \<lparr>c_id = uid avaUser, c_name = name avaUser, c_email = email avaUser\<rparr>)
                     (avaUser\<lparr>password := None\<rparr>))"
    by (rule G4 [THEN conjunct2, THEN conjunct2, THEN conjunct2, THEN conjunct2, THEN conjunct1,
          rule_format, OF l4, THEN conjunct1])
  have e: "fst (registerWithGoogle demoLibs (Some ''forged.ava.nosig'') demoWorld)
       = json 400 (ErrorJson ''User with this email already exists'')"
    by (rule R5 [THEN conjunct2, THEN conjunct2, THEN conjunct2, THEN conjunct2, THEN conjunct1,
          rule_format, OF l5, THEN conjunct1])
  have f: "\<exists>tk u. fst (registerWithGoogle demoLibs (Some ''forged.ava.nosig'') emptyWorld)
                 = json 200 (AuthJson tk (u\<lparr>password := None\<rparr>))
          \<and> users (snd (registerWithGoogle demoLibs (Some ''forged.ava.nosig'') emptyWorld))
              = users (snd (registerWithGooglePrimary demoLibs ''forged.ava.nosig'' emptyWorld)) @ [u]
          \<and> email u = ''ava@x.com''"
    by (rule R6 [THEN conjunct2, THEN conjunct2, THEN conjunct2, THEN conjunct2, THEN conjunct2,
          rule_format, OF l6])
  have g: "googleLoginFallback demoLibs ''forged.ava.nosig'' = googleLoginFallback demoLibs ''x.ava.y''"
    using S7 [THEN conjunct1] by (rule sym)
  from a b c d e f g show ?thesis by (intro conjI)
qed

section \<open>The admin routes\<close>

text \<open>
  The gate of the twelve handlers: without a bearer header, with a token that fails
  verification, or with a subject that is no stored admin, the response is 401, 403 or
  500, the content items are unchanged, and the only store method invoked, if any, is
  \<open>getUser\<close>.
\<close>

lemma bearerClaims_pure: "snd (bearerClaims L h s) = s"
  by (simp add: bearerClaims_def run_simps split: list.splits option.splits)

lemma find_in_set: "find P xs = Some x \<Longrightarrow> x \<in> set xs \<and> P x"
  by (induction xs) (auto split: if_splits)

lemma getUser_run:
  "(\<exists>s1. getUser i s = (Inl StoreError, s1) \<and> items s1 = items s \<and> calls s1 = calls s @ [GetUser i])
   \<or> (\<exists>s1. getUser i s = (Inr (find (\<lambda>u. uid u = i) (users s)), s1) \<and> items s1 = items s
          \<and> calls s1 = calls s @ [GetUser i])"
proof (cases "faults s")
  case Nil
  then show ?thesis by (simp add: getUser_def storeCall_def run_simps)
next
  case (Cons f fs)
  then show ?thesis by (cases f) (simp_all add: getUser_def storeCall_def run_simps)
qed

lemma getUser_cases:
  obtains (raised) s1 where "getUser i s = (Inl StoreError, s1)" "items s1 = items s" "calls s1 = calls s @ [GetUser i]"
  | (answered) s1 where "getUser i s = (Inr (find (\<lambda>u. uid u = i) (users s)), s1)" "items s1 = items s"
      "calls s1 = calls s @ [GetUser i]"
  using getUser_run [of i s] by blast

lemma admin_gate_blocks_mutation:
  assumes "h = postItem L r \<or> h = putItem L r \<or> h = deleteItemRoute L r"
    and "falsy (authorization req) \<or> \<not> startsWith ''Bearer '' (the (authorization req))
       \<or> fst (bearerClaims L (the (authorization req)) s) = Inl JwtError
       \<or> (\<exists>c. fst (bearerClaims L (the (authorization req)) s) = Inr c
              \<and> (\<forall>u \<in> set (users s). uid u = c_id c \<longrightarrow> role u \<noteq> RoleAdmin))"
  shows "status (fst (h req s)) \<in> {401, 403, 500} \<and> items (snd (h req s)) = items s
       \<and> (calls (snd (h req s)) = calls s \<or> (\<exists>i. calls (snd (h req s)) = calls s @ [GetUser i]))"
proof (cases "falsy (authorization req) \<or> \<not> startsWith ''Bearer '' (the (authorization req))")
  case True
  with assms(1) show ?thesis
    by (auto simp: postItem_def putItem_def deleteItemRoute_def run_simps json_def)
next
  case False
  obtain x where bc: "bearerClaims L (the (authorization req)) s = (x, s)"
    using bearerClaims_pure [of L "the (authorization req)" s]
    by (cases "bearerClaims L (the (authorization req)) s") simp
  show ?thesis
  proof (cases x)
    case (Inl e)
    with False bc assms(1) show ?thesis
      by (auto simp: postItem_def putItem_def deleteItemRoute_def run_simps json_def logged_def)
  next
    case (Inr c)
    with False bc assms(2) have notadmin: "\<forall>u \<in> set (users s). uid u = c_id c \<longrightarrow> role u \<noteq> RoleAdmin"
      by auto
    show ?thesis
    proof (cases rule: getUser_cases [of "c_id c" s])
      case (raised s1)
      with False bc Inr assms(1) show ?thesis
        by (auto simp: postItem_def putItem_def deleteItemRoute_def run_simps json_def logged_def)
    next
      case (answered s1)
      show ?thesis
      proof (cases "find (\<lambda>u. uid u = c_id c) (users s)")
        case None
        with answered False bc Inr assms(1) show ?thesis
          by (auto simp: postItem_def putItem_def deleteItemRoute_def run_simps json_def)
      next
        case (Some u)
        with notadmin find_in_set [OF Some] have "role u \<noteq> RoleAdmin" by simp
        with Some answered False bc Inr assms(1) show ?thesis
          by (auto simp: postItem_def putItem_def deleteItemRoute_def run_simps json_def)
      qed
    qed
  qed
qed

text \<open>
  C10 on the code: with a bearer token that fails verification, \<^verbatim>\<open>jwt.verify\<close> raises into
  the handler's only \<^verbatim>\<open>catch\<close>: the routes answer 500 with their generic failure message,
  not 401 or 403.
\<close>

theorem invalid_token_on_admin_route:
  "postItem demoLibs Videos \<lparr>authorization = Some ''Bearer garbage'', paramId = 0, reqBody = ''v''\<rparr> demoWorld
     = (json 500 (MessageJson ''Failed to create video''), logged ''Create video error:'' demoWorld)
   \<and> putItem demoLibs Events \<lparr>authorization = Some ''Bearer garbage'', paramId = 0, reqBody = ''v''\<rparr> demoWorld
     = (json 500 (MessageJson ''Failed to update event''), logged ''Update event error:'' demoWorld)
   \<and> deleteItemRoute demoLibs Gallery \<lparr>authorization = Some ''Bearer garbage'', paramId = 0, reqBody = ''v''\<rparr> demoWorld
     = (json 500 (MessageJson ''Failed to delete gallery item''), logged ''Delete gallery item error:'' demoWorld)"
  by (simp add: postItem_def putItem_def deleteItemRoute_def eval_simps)

end
